theory Spec2Isabelle
  imports Main "HOL-Library.Multiset"
begin

section \<open>Stopped-instance lister: a shallow embedding of oci_instance_deallocated_analysis.py\<close>

text \<open>
  The embedding follows the methods of \<open>SimpleStoppedInstanceLister\<close> and \<open>main\<close>.
  Python dictionaries are association lists in insertion order, exceptions are the left
  summand of a result, the mutable attributes of the lister are a record that every method
  takes and returns, and the cloud capabilities (identity and compute clients, the clock,
  the report writers) are the fields of a record \<open>world\<close> that the methods consult.
\<close>

subsection \<open>Tags and the owner lookup\<close>

text \<open>
  A freeform tag dictionary maps keys to values. A defined-tag dictionary maps a namespace
  to a value that is normally a dictionary itself; \<open>isinstance(tags, dict)\<close> is the
  constructor test.
\<close>

type_synonym tags = "(string \<times> string) list"

datatype tag_namespace = TagDict tags | NotADict

type_synonym defined_tags = "(string \<times> tag_namespace) list"

text \<open>\<open>key in d\<close> and \<open>d[key]\<close> of a dictionary.\<close>

definition py_in :: "string \<Rightarrow> tags \<Rightarrow> bool" where
  "py_in k d = (map_of d k \<noteq> None)"

definition freeform_keys :: "string list" where
  "freeform_keys = [''Owner'', ''CreatedBy'', ''Contact'', ''Maintainer'', ''Team'']"

definition defined_keys :: "string list" where
  "defined_keys = [''Owner'', ''CreatedBy'', ''Contact'', ''ApplicationOwner'']"

text \<open>\<open>for key in keys: if key in d: return d[key]\<close>; \<open>None\<close> when the loop falls through.\<close>

fun first_key :: "string list \<Rightarrow> tags \<Rightarrow> string option" where
  "first_key [] d = None"
| "first_key (k # ks) d = (if py_in k d then map_of d k else first_key ks d)"

text \<open>\<open>for namespace, tags in defined_tags.items(): if isinstance(tags, dict): ...\<close>\<close>

fun scan_namespaces :: "defined_tags \<Rightarrow> string option" where
  "scan_namespaces [] = None"
| "scan_namespaces ((namespace, TagDict d) # rest) =
     (case first_key defined_keys d of
        Some v \<Rightarrow> Some v
      | None \<Rightarrow> scan_namespaces rest)"
| "scan_namespaces ((namespace, NotADict) # rest) = scan_namespaces rest"

text \<open>
  \<open>get_owner_from_tags(defined_tags, freeform_tags)\<close>. An argument is \<open>None\<close> for
  Python's \<open>None\<close>; \<open>if freeform_tags:\<close> holds for a dictionary that is not empty.
\<close>

definition get_owner_from_tags :: "defined_tags option \<Rightarrow> tags option \<Rightarrow> string" where
  "get_owner_from_tags defined freeform =
     (case (case freeform of
              None \<Rightarrow> None
            | Some ff \<Rightarrow> if ff \<noteq> [] then first_key freeform_keys ff else None) of
        Some v \<Rightarrow> v
      | None \<Rightarrow>
          (case (case defined of
                   None \<Rightarrow> None
                 | Some dt \<Rightarrow> if dt \<noteq> [] then scan_namespaces dt else None) of
             Some v \<Rightarrow> v
           | None \<Rightarrow> ''Unknown''))"

text \<open>A namespace offers an owner when it is a dictionary holding one of the defined keys.\<close>

fun offers_owner :: "tag_namespace \<Rightarrow> bool" where
  "offers_owner (TagDict d) = (\<exists>k \<in> set defined_keys. py_in k d)"
| "offers_owner NotADict = False"

text \<open>Python's \<open>None\<close> in place of a tag dictionary behaves as the empty dictionary.\<close>

definition dict_of :: "'a list option \<Rightarrow> 'a list" where
  "dict_of d = (case d of None \<Rightarrow> [] | Some xs \<Rightarrow> xs)"

subsection \<open>Exceptions\<close>

text \<open>
  The exceptions the program meets. \<open>ServiceError\<close> stands for any exception raised by an
  external call (a client constructor, a capability request, a file operation); it carries
  the text \<open>str(e)\<close>.
\<close>

datatype py_error =
    AttributeError string
  | ValueError string
  | TypeError string
  | UnboundLocalError string
  | ServiceError string

fun error_text :: "py_error \<Rightarrow> string" where
  "error_text (AttributeError a) = ''object has no attribute '' @ a"
| "error_text (ValueError m) = m"
| "error_text (TypeError m) = m"
| "error_text (UnboundLocalError v) = ''cannot access local variable '' @ v"
| "error_text (ServiceError m) = m"

subsection \<open>Dates and times\<close>

text \<open>
  \<open>datetime\<close> objects: the civil fields and \<open>tzinfo\<close>, kept as the UTC offset in
  microseconds (\<open>None\<close> for a naive value).
\<close>

record datetime =
  year :: nat
  month :: nat
  day :: nat
  hour :: nat
  minute :: nat
  second :: nat
  microsecond :: nat
  tzinfo :: "int option"

definition is_leap :: "nat \<Rightarrow> bool" where
  "is_leap y = (y mod 4 = 0 \<and> (y mod 100 \<noteq> 0 \<or> y mod 400 = 0))"

definition days_in_month :: "nat \<Rightarrow> nat \<Rightarrow> nat" where
  "days_in_month y m =
     (if m = 2 then (if is_leap y then 29 else 28)
      else if m = 4 \<or> m = 6 \<or> m = 9 \<or> m = 11 then 30 else 31)"

definition days_before_year :: "nat \<Rightarrow> int" where
  "days_before_year y =
     (let p = int y - 1 in p * 365 + p div 4 - p div 100 + p div 400)"

definition days_before_month :: "nat \<Rightarrow> nat \<Rightarrow> int" where
  "days_before_month y m = (\<Sum>k \<leftarrow> [1..<m]. int (days_in_month y k))"

text \<open>The proleptic Gregorian ordinal of a date (\<open>date.toordinal\<close>): 1 for 0001-01-01.\<close>

definition ymd2ord :: "nat \<Rightarrow> nat \<Rightarrow> nat \<Rightarrow> int" where
  "ymd2ord y m d = days_before_year y + days_before_month y m + int d"

text \<open>The checks of the \<open>datetime\<close> constructor (it raises \<open>ValueError\<close> otherwise).\<close>

definition valid_fields :: "datetime \<Rightarrow> bool" where
  "valid_fields d =
     (1 \<le> year d \<and> year d \<le> 9999 \<and> 1 \<le> month d \<and> month d \<le> 12
      \<and> 1 \<le> day d \<and> day d \<le> days_in_month (year d) (month d)
      \<and> hour d < 24 \<and> minute d < 60 \<and> second d < 60 \<and> microsecond d < 1000000)"

definition local_microseconds :: "datetime \<Rightarrow> int" where
  "local_microseconds d =
     (((ymd2ord (year d) (month d) (day d) * 24 + int (hour d)) * 60 + int (minute d)) * 60
        + int (second d)) * 1000000 + int (microsecond d)"

definition day_microseconds :: int where
  "day_microseconds = 86400 * 1000000"

text \<open>
  \<open>(now - created_dt).days\<close>. Subtracting an aware and a naive value raises \<open>TypeError\<close>;
  two aware values differ by their UTC instants. The \<open>days\<close> of a \<open>timedelta\<close> is the
  floor of the difference in days (a negative difference has negative \<open>days\<close>).
\<close>

definition timedelta_days :: "datetime \<Rightarrow> datetime \<Rightarrow> py_error + int" where
  "timedelta_days now created_dt =
     (case (tzinfo now, tzinfo created_dt) of
        (Some a, Some b) \<Rightarrow>
          Inr (((local_microseconds now - a) - (local_microseconds created_dt - b))
                 div day_microseconds)
      | (None, None) \<Rightarrow>
          Inr ((local_microseconds now - local_microseconds created_dt) div day_microseconds)
      | _ \<Rightarrow> Inl (TypeError ''can't subtract offset-naive and offset-aware datetimes''))"

subsection \<open>Library string functions\<close>

text \<open>\<open>s.replace(old, '')\<close>: every occurrence of \<open>old\<close>, found from the left, is removed.\<close>

fun py_remove :: "string \<Rightarrow> string \<Rightarrow> string" where
  "py_remove old [] = []"
| "py_remove old (c # cs) =
     (if old \<noteq> [] \<and> take (length old) (c # cs) = old
      then py_remove old (drop (length old) (c # cs))
      else c # py_remove old cs)"

text \<open>\<open>sub in s\<close> for strings.\<close>

fun py_contains :: "string \<Rightarrow> string \<Rightarrow> bool" where
  "py_contains sub [] = (sub = [])"
| "py_contains sub (c # cs) = (take (length sub) (c # cs) = sub \<or> py_contains sub cs)"

text \<open>\<open>s.lower()\<close> on the ASCII letters; other bytes are kept.\<close>

definition lower_char :: "char \<Rightarrow> char" where
  "lower_char c =
     (let n = (of_char c :: nat) in if 65 \<le> n \<and> n \<le> 90 then char_of (n + 32) else c)"

definition py_lower :: "string \<Rightarrow> string" where
  "py_lower s = map lower_char s"

text \<open>\<open>s.split(',')\<close>: the pieces between the separators; never the empty list.\<close>

fun py_split :: "char \<Rightarrow> string \<Rightarrow> string list" where
  "py_split sep [] = [[]]"
| "py_split sep (c # cs) =
     (if c = sep then [] # py_split sep cs
      else (case py_split sep cs of
              [] \<Rightarrow> [[c]]
            | p # ps \<Rightarrow> (c # p) # ps))"

subsection \<open>The library's \<open>datetime.fromisoformat\<close>\<close>

text \<open>
  The parser follows the grammar of Python 3.7 to 3.10,
  \<open>YYYY-MM-DD[*HH[:MM[:SS[.fff[fff]]]][+HH:MM[:SS[.ffffff]]]]\<close>, where \<open>*\<close> is any one
  character; every failure is the library's \<open>ValueError\<close>.
\<close>

definition is_digit :: "char \<Rightarrow> bool" where
  "is_digit c = (48 \<le> (of_char c :: nat) \<and> (of_char c :: nat) \<le> 57)"

definition digit_val :: "char \<Rightarrow> nat" where
  "digit_val c = of_char c - 48"

definition parse_digits :: "string \<Rightarrow> nat option" where
  "parse_digits s =
     (if s \<noteq> [] \<and> list_all is_digit s
      then Some (foldl (\<lambda>acc c. 10 * acc + digit_val c) 0 s) else None)"

definition two_digits :: "string \<Rightarrow> nat option" where
  "two_digits s = (if length s = 2 then parse_digits s else None)"

definition parse_isoformat_date :: "string \<Rightarrow> (nat \<times> nat \<times> nat) option" where
  "parse_isoformat_date dtstr =
     (if length dtstr = 10 \<and> dtstr ! 4 = CHR ''-'' \<and> dtstr ! 7 = CHR ''-''
      then (case (parse_digits (take 4 dtstr), two_digits (take 2 (drop 5 dtstr)),
                  two_digits (take 2 (drop 8 dtstr))) of
              (Some y, Some m, Some d) \<Rightarrow> Some (y, m, d)
            | _ \<Rightarrow> None)
      else None)"

text \<open>What may follow the seconds: nothing, or a point and three or six digits.\<close>

definition parse_fraction :: "string \<Rightarrow> nat option" where
  "parse_fraction s =
     (if s = [] then Some 0
      else if hd s = CHR ''.'' \<and> length (tl s) = 3
        then map_option (\<lambda>n. n * 1000) (parse_digits (tl s))
      else if hd s = CHR ''.'' \<and> length (tl s) = 6 then parse_digits (tl s)
      else None)"

text \<open>\<open>HH[:MM[:SS[.fff[fff]]]]\<close>\<close>

definition parse_hh_mm_ss_ff :: "string \<Rightarrow> (nat \<times> nat \<times> nat \<times> nat) option" where
  "parse_hh_mm_ss_ff tstr =
     (case two_digits (take 2 tstr) of
        None \<Rightarrow> None
      | Some h \<Rightarrow>
          if length tstr = 2 then Some (h, 0, 0, 0)
          else if tstr ! 2 \<noteq> CHR '':'' then None
          else (case two_digits (take 2 (drop 3 tstr)) of
                  None \<Rightarrow> None
                | Some m \<Rightarrow>
                    if length tstr = 5 then Some (h, m, 0, 0)
                    else if tstr ! 5 \<noteq> CHR '':'' then None
                    else (case two_digits (take 2 (drop 6 tstr)) of
                            None \<Rightarrow> None
                          | Some s \<Rightarrow>
                              (case parse_fraction (drop 8 tstr) of
                                 None \<Rightarrow> None
                               | Some us \<Rightarrow> Some (h, m, s, us)))))"

text \<open>
  The time part with its optional offset. The offset starts at the first \<open>-\<close>, or at the
  first \<open>+\<close> when there is no \<open>-\<close>; it is \<open>HH:MM\<close>, \<open>HH:MM:SS\<close> or \<open>HH:MM:SS.ffffff\<close> and
  must be less than a day.
\<close>

definition parse_isoformat_time ::
  "string \<Rightarrow> ((nat \<times> nat \<times> nat \<times> nat) \<times> int option) option" where
  "parse_isoformat_time tstr =
     (if length tstr < 2 then None
      else
        let sign_char = (if CHR ''-'' \<in> set tstr then Some (CHR ''-'')
                         else if CHR ''+'' \<in> set tstr then Some (CHR ''+'') else None)
        in (case sign_char of
              None \<Rightarrow> map_option (\<lambda>t. (t, None)) (parse_hh_mm_ss_ff tstr)
            | Some sc \<Rightarrow>
                let timestr = takeWhile (\<lambda>c. c \<noteq> sc) tstr;
                    tzstr = tl (dropWhile (\<lambda>c. c \<noteq> sc) tstr)
                in (case parse_hh_mm_ss_ff timestr of
                      None \<Rightarrow> None
                    | Some t \<Rightarrow>
                        if length tzstr \<noteq> 5 \<and> length tzstr \<noteq> 8 \<and> length tzstr \<noteq> 15 then None
                        else (case parse_hh_mm_ss_ff tzstr of
                                None \<Rightarrow> None
                              | Some (h, m, s, us) \<Rightarrow>
                                  let off = (int h * 3600 + int m * 60 + int s) * 1000000 + int us
                                  in if off \<ge> day_microseconds then None
                                     else Some (t, Some (if sc = CHR ''-'' then - off else off))))))"

definition fromisoformat :: "string \<Rightarrow> py_error + datetime" where
  "fromisoformat date_string =
     (case parse_isoformat_date (take 10 date_string) of
        None \<Rightarrow> Inl (ValueError (''Invalid isoformat string: '' @ date_string))
      | Some (y, m, d) \<Rightarrow>
          (case (if drop 11 date_string = [] then Some ((0, 0, 0, 0), None)
                 else parse_isoformat_time (drop 11 date_string)) of
             None \<Rightarrow> Inl (ValueError (''Invalid isoformat string: '' @ date_string))
           | Some ((h, mi, s, us), tz) \<Rightarrow>
               let dt = \<lparr>year = y, month = m, day = d, hour = h, minute = mi, second = s,
                         microsecond = us, tzinfo = tz\<rparr>
               in if valid_fields dt then Inr dt
                  else Inl (ValueError ''field out of range'')))"

subsection \<open>Age in days\<close>

text \<open>
  The value of an instance's \<open>time_created\<close>: \<open>None\<close>, a string, a \<open>datetime\<close> object (what
  the SDK returns), or any other object (it has no \<open>tzinfo\<close> attribute).
\<close>

datatype time_value = TNone | TStr string | TDatetime datetime | TOther

text \<open>
  \<open>calculate_days_since_created\<close>. The argument \<open>clock\<close> is the reading of the clock in
  UTC; \<open>datetime.now(timezone.utc)\<close> is that reading as an aware value. Every exception
  inside is caught and gives 0.
\<close>

definition utc_now :: "datetime \<Rightarrow> datetime" where
  "utc_now clock = clock\<lparr>tzinfo := Some 0\<rparr>"

definition created_dt_of :: "time_value \<Rightarrow> py_error + datetime" where
  "created_dt_of time_created =
     (case time_created of
        TStr s \<Rightarrow>
          let time_str = py_remove ''Z'' (py_remove ''+00:00'' s)
          in if CHR ''.'' \<in> set time_str
             then (case fromisoformat time_str of
                     Inl e \<Rightarrow> Inl e
                   | Inr d \<Rightarrow> Inr (d\<lparr>tzinfo := Some 0\<rparr>))
             else fromisoformat (time_str @ ''+00:00'')
      | TDatetime d \<Rightarrow> Inr (if tzinfo d = None then d\<lparr>tzinfo := Some 0\<rparr> else d)
      | _ \<Rightarrow> Inl (AttributeError ''tzinfo''))"

definition calculate_days_since_created :: "datetime \<Rightarrow> time_value \<Rightarrow> int" where
  "calculate_days_since_created clock time_created =
     (if time_created = TNone \<or> time_created = TStr [] then 0
      else (case created_dt_of time_created of
              Inl e \<Rightarrow> 0
            | Inr created_dt \<Rightarrow>
                (case timedelta_days (utc_now clock) created_dt of
                   Inl e \<Rightarrow> 0
                 | Inr days \<Rightarrow> max 0 days)))"

subsection \<open>The canonical timestamp strings\<close>

text \<open>
  \<open>datetime.isoformat(sep, timespec)\<close> of the civil fields: the strings
  \<open>YYYY-MM-DD*HH:MM:SS\<close>, optionally with three or six digits of sub-second precision.
  It names the timestamps that the statements below range over; the program itself never
  formats a timestamp.
\<close>

definition digit_char :: "nat \<Rightarrow> char" where
  "digit_char n = char_of (48 + n mod 10)"

definition pad2 :: "nat \<Rightarrow> string" where
  "pad2 n = [digit_char (n div 10), digit_char n]"

definition pad3 :: "nat \<Rightarrow> string" where
  "pad3 n = [digit_char (n div 100), digit_char (n div 10), digit_char n]"

definition pad4 :: "nat \<Rightarrow> string" where
  "pad4 n = [digit_char (n div 1000), digit_char (n div 100), digit_char (n div 10),
             digit_char n]"

definition pad6 :: "nat \<Rightarrow> string" where
  "pad6 n = [digit_char (n div 100000), digit_char (n div 10000), digit_char (n div 1000),
             digit_char (n div 100), digit_char (n div 10), digit_char n]"

datatype timespec = Seconds | Milliseconds | Microseconds

definition date_of :: "datetime \<Rightarrow> string" where
  "date_of d = pad4 (year d) @ ''-'' @ pad2 (month d) @ ''-'' @ pad2 (day d)"

definition time_of :: "timespec \<Rightarrow> datetime \<Rightarrow> string" where
  "time_of spec d =
     pad2 (hour d) @ '':'' @ pad2 (minute d) @ '':'' @ pad2 (second d)
       @ (case spec of
            Seconds \<Rightarrow> []
          | Milliseconds \<Rightarrow> CHR ''.'' # pad3 (microsecond d div 1000)
          | Microseconds \<Rightarrow> CHR ''.'' # pad6 (microsecond d))"

definition isoformat :: "char \<Rightarrow> timespec \<Rightarrow> datetime \<Rightarrow> string" where
  "isoformat sep spec d = date_of d @ sep # time_of spec d"


subsection \<open>Records of the program\<close>

text \<open>
  An instance as the compute capability returns it: an object whose attributes the program
  reads. \<open>None\<close> is an attribute the object does not have: reading it directly raises
  \<open>AttributeError\<close>, reading it with \<open>getattr(instance, name, default)\<close> gives the
  default. For the two tag attributes \<open>None\<close> also stands for the value \<open>None\<close>, which
  \<open>get_owner_from_tags\<close> treats as the empty dictionary that \<open>getattr\<close> defaults to.
  \<open>inst_region\<close> is the attribute \<open>region\<close> that the scan sets on every instance.
\<close>

record raw_instance =
  inst_id :: "string option"
  inst_display_name :: "string option"
  inst_shape :: "string option"
  inst_compartment_id :: "string option"
  inst_time_created :: "time_value option"
  inst_availability_domain :: "string option"
  inst_fault_domain :: "string option"
  inst_image_id :: "string option"
  inst_defined_tags :: "defined_tags option"
  inst_freeform_tags :: "tags option"
  inst_region :: "string option"

text \<open>The dataclass \<open>StoppedInstance\<close>.\<close>

record stopped_instance =
  instance_name :: string
  instance_id :: string
  shape :: string
  region :: string
  availability_domain :: string
  compartment_name :: string
  compartment_id :: string
  time_created :: time_value
  days_since_created :: int
  instance_owner :: string
  fault_domain :: string
  image_id :: string

text \<open>What the identity capability returns.\<close>

record region_subscription =
  region_name :: string
  status :: string

record compartment =
  comp_id :: string
  comp_name :: string
  lifecycle_state :: string

text \<open>
  What the program leaves behind, in order: the capability requests it issues, its sleeps,
  its log lines and what it prints. A log line is its level, its text with \<open>{}\<close> for each
  interpolated value, and the values.
\<close>

datatype log_arg = S string | N int

datatype event =
    ApiCall string "string list"
  | Sleep nat
  | Log string string "log_arg list"
  | Print string "log_arg list"

text \<open>
  The attributes of \<open>SimpleStoppedInstanceLister\<close> that its methods change: the four
  counters of \<open>stats\<close>, the two caches, and the trace of events. The compartment cache is
  a dictionary in insertion order.
\<close>

record lister =
  tenancy_id :: string
  max_workers :: int
  regions_scanned :: nat
  compartments_scanned :: nat
  stopped_instances_found :: nat
  api_calls_made :: nat
  compartment_cache :: "(string \<times> string) list"
  region_cache :: "string list"
  trace :: "event list"

text \<open>
  Everything outside the program. A client constructor either succeeds (\<open>None\<close>) or raises.
  An identity request answers as of the moment it is issued, given by the number of events
  before it; a listing request answers per cell and attempt. \<open>as_completed\<close> is the order
  in which the pool finishes the submitted tasks. The report writers of the program
  (\<open>generate_csv_report\<close>, \<open>generate_html_report\<close>, \<open>generate_summary_report\<close>) write
  files and are taken as given.
\<close>

record world =
  from_file :: "string \<Rightarrow> py_error + string option"
  makedirs :: "string \<Rightarrow> py_error option"
  wall_clock :: datetime
  identity_client :: "py_error option"
  list_region_subscriptions :: "nat \<Rightarrow> py_error + region_subscription list"
  get_compartment :: "nat \<Rightarrow> string \<Rightarrow> py_error + string"
  list_compartments :: "nat \<Rightarrow> py_error + compartment list"
  get_tenancy :: "nat \<Rightarrow> py_error + string"
  compute_client :: "string \<Rightarrow> py_error option"
  list_instances :: "string \<Rightarrow> string \<Rightarrow> nat \<Rightarrow> py_error + raw_instance list"
  as_completed :: "(string \<times> string) list \<Rightarrow> (string \<times> string) list"
  generate_csv_report :: "stopped_instance list \<Rightarrow> string \<Rightarrow> py_error + string"
  generate_html_report :: "stopped_instance list \<Rightarrow> string \<Rightarrow> py_error + string"
  generate_summary_report :: "stopped_instance list \<Rightarrow> string"

subsection \<open>Dictionaries, counters and the log\<close>

text \<open>\<open>d[k] = v\<close>: an existing key keeps its place, a new key goes last.\<close>

fun dict_set :: "'k \<Rightarrow> 'v \<Rightarrow> ('k \<times> 'v) list \<Rightarrow> ('k \<times> 'v) list" where
  "dict_set k v [] = [(k, v)]"
| "dict_set k v (p # ps) = (if fst p = k then (k, v) # ps else p # dict_set k v ps)"

text \<open>\<open>d.get(k, default)\<close>\<close>

definition dict_get :: "('k \<times> 'v) list \<Rightarrow> 'k \<Rightarrow> 'v \<Rightarrow> 'v" where
  "dict_get d k dflt = (case map_of d k of None \<Rightarrow> dflt | Some v \<Rightarrow> v)"

text \<open>\<open>self.stats['api_calls_made'] += 1\<close> and the request that follows it.\<close>

definition api_call :: "string \<Rightarrow> string list \<Rightarrow> lister \<Rightarrow> lister" where
  "api_call name params s =
     s\<lparr>api_calls_made := api_calls_made s + 1, trace := trace s @ [ApiCall name params]\<rparr>"

definition logmsg :: "string \<Rightarrow> string \<Rightarrow> log_arg list \<Rightarrow> lister \<Rightarrow> lister" where
  "logmsg level text_template params s = s\<lparr>trace := trace s @ [Log level text_template params]\<rparr>"

definition sleep :: "nat \<Rightarrow> lister \<Rightarrow> lister" where
  "sleep seconds s = s\<lparr>trace := trace s @ [Sleep seconds]\<rparr>"

text \<open>Truth of an optional string or list: neither \<open>None\<close> nor empty.\<close>

definition truthy :: "'a list option \<Rightarrow> bool" where
  "truthy v = (case v of None \<Rightarrow> False | Some xs \<Rightarrow> xs \<noteq> [])"

subsection \<open>Region and compartment resolver\<close>

definition fallback_regions :: "string list" where
  "fallback_regions = [''us-ashburn-1'', ''us-phoenix-1'']"

definition get_subscribed_regions :: "world \<Rightarrow> lister \<Rightarrow> string list \<times> lister" where
  "get_subscribed_regions w s =
     (if region_cache s \<noteq> [] then (region_cache s, s)
      else
        (case (case identity_client w of
                 Some e \<Rightarrow> (Inl e, s)
               | None \<Rightarrow>
                   (list_region_subscriptions w (length (trace s)),
                    api_call ''list_region_subscriptions'' [tenancy_id s] s)) of
           (Inr region_subscriptions, s1) \<Rightarrow>
             let cache = map region_name
                           (filter (\<lambda>r. status r = ''READY'') region_subscriptions);
                 s2 = logmsg ''info'' ''Found {} subscribed regions'' [N (int (length cache))]
                        (s1\<lparr>region_cache := cache\<rparr>)
             in (cache, s2)
         | (Inl e, s1) \<Rightarrow>
             let s2 = (logmsg ''warning'' ''Error getting regions: {}'' [S (error_text e)] s1)
                        \<lparr>region_cache := fallback_regions\<rparr>
             in (fallback_regions, s2)))"

text \<open>The loop over the explicit compartment ids; its bare \<open>except\<close> catches every failure.\<close>

fun get_compartments_by_id :: "world \<Rightarrow> string list \<Rightarrow> lister \<Rightarrow> lister" where
  "get_compartments_by_id w [] s = s"
| "get_compartments_by_id w (cid # rest) s =
     (let s1 = api_call ''get_compartment'' [cid] s;
          nm = (case get_compartment w (length (trace s)) cid of
                  Inr n \<Rightarrow> n
                | Inl e \<Rightarrow> ''Unknown'')
      in get_compartments_by_id w rest
           (s1\<lparr>compartment_cache := dict_set cid nm (compartment_cache s1)\<rparr>))"

text \<open>\<open>for comp in compartments: if comp.lifecycle_state == "ACTIVE": cache[comp.id] = comp.name\<close>\<close>

fun cache_active :: "compartment list \<Rightarrow> (string \<times> string) list \<Rightarrow> (string \<times> string) list" where
  "cache_active [] cache = cache"
| "cache_active (c # cs) cache =
     cache_active cs
       (if lifecycle_state c = ''ACTIVE'' then dict_set (comp_id c) (comp_name c) cache
        else cache)"

definition compartments_found :: "lister \<Rightarrow> (string \<times> string) list \<times> lister" where
  "compartments_found s =
     (compartment_cache s,
      logmsg ''info'' ''Found {} compartments'' [N (int (length (compartment_cache s)))] s)"

definition compartments_fallback :: "py_error \<Rightarrow> lister \<Rightarrow> (string \<times> string) list \<times> lister" where
  "compartments_fallback e s =
     (let s1 = (logmsg ''warning'' ''Error getting compartments: {}'' [S (error_text e)] s)
                 \<lparr>compartment_cache := [(tenancy_id s, ''Root Compartment'')]\<rparr>
      in (compartment_cache s1, s1))"

definition get_all_compartments ::
  "world \<Rightarrow> lister \<Rightarrow> string list option \<Rightarrow> (string \<times> string) list \<times> lister" where
  "get_all_compartments w s compartment_ids =
     (if compartment_cache s \<noteq> [] then (compartment_cache s, s)
      else
        (case identity_client w of
           Some e \<Rightarrow> compartments_fallback e s
         | None \<Rightarrow>
             if truthy compartment_ids
             then compartments_found (get_compartments_by_id w (dict_of compartment_ids) s)
             else
               (let s1 = api_call ''list_compartments'' [tenancy_id s] s
                in (case list_compartments w (length (trace s)) of
                      Inl e \<Rightarrow> compartments_fallback e s1
                    | Inr compartments \<Rightarrow>
                        let s2 = s1\<lparr>compartment_cache :=
                                      cache_active compartments (compartment_cache s1)\<rparr>;
                            s3 = api_call ''get_tenancy'' [tenancy_id s] s2;
                            root = (case get_tenancy w (length (trace s2)) of
                                      Inr n \<Rightarrow> n @ '' (Root)''
                                    | Inl e \<Rightarrow> ''Root Compartment'')
                        in compartments_found
                             (s3\<lparr>compartment_cache :=
                                   dict_set (tenancy_id s) root (compartment_cache s3)\<rparr>)))))"

subsection \<open>Scan of one cell, with retries\<close>

definition transient_keywords :: "string list" where
  "transient_keywords = [''timeout'', ''connection'', ''max retries'']"

text \<open>\<open>any(keyword in str(e).lower() for keyword in [...])\<close>\<close>

definition is_transient :: "py_error \<Rightarrow> bool" where
  "is_transient e = list_ex (\<lambda>keyword. py_contains keyword (py_lower (error_text e)))
                      transient_keywords"

definition max_retries :: nat where
  "max_retries = 3"

text \<open>
  The body of \<open>for attempt in range(max_retries)\<close>, over the attempts still to run. The
  client is built before the request is counted, so an attempt that fails in the
  constructor counts no request.
\<close>

fun attempts ::
  "world \<Rightarrow> string \<Rightarrow> string \<Rightarrow> nat list \<Rightarrow> nat \<Rightarrow> lister \<Rightarrow> raw_instance list \<times> lister" where
  "attempts w reg cid [] retry_delay s = ([], s)"
| "attempts w reg cid (attempt # rest) retry_delay s =
     (case (case compute_client w reg of
              Some e \<Rightarrow> (Inl e, s)
            | None \<Rightarrow>
                (list_instances w reg cid attempt, api_call ''list_instances'' [reg, cid] s)) of
        (Inr instances, s1) \<Rightarrow> (instances, s1)
      | (Inl e, s1) \<Rightarrow>
          let comp_name = dict_get (compartment_cache s1) cid ''Unknown''
          in if attempt < max_retries - 1 \<and> is_transient e
             then attempts w reg cid rest (retry_delay * 2)
                    (sleep retry_delay
                       (logmsg ''warning'' ''Timeout in {}/{}, retrying in {}s (attempt {}/{})''
                          [S reg, S comp_name, N (int retry_delay), N (int attempt + 1),
                           N (int max_retries)] s1))
             else ([], logmsg ''warning'' ''Failed to get instances in {}/{}: {}''
                         [S reg, S comp_name, S (error_text e)] s1))"

definition get_stopped_instances_in_region_compartment ::
  "world \<Rightarrow> lister \<Rightarrow> string \<Rightarrow> string \<Rightarrow> raw_instance list \<times> lister" where
  "get_stopped_instances_in_region_compartment w s reg cid =
     attempts w reg cid [0..<max_retries] 5 s"

subsection \<open>Scan of all cells\<close>

text \<open>\<open>for instance in instances: instance.region = region\<close>\<close>

definition tag_region :: "string \<Rightarrow> raw_instance \<Rightarrow> raw_instance" where
  "tag_region reg i = i\<lparr>inst_region := Some reg\<rparr>"

text \<open>
  The loop \<open>for future in as_completed(future_to_task)\<close>. The pool runs the cells in
  parallel; the model runs each cell when its result is collected, so the effects of the
  cells on the counters and the trace are those of one serial order.
\<close>

fun collect ::
  "world \<Rightarrow> nat \<Rightarrow> (string \<times> string) list \<Rightarrow> raw_instance list \<Rightarrow> nat \<Rightarrow> lister
     \<Rightarrow> raw_instance list \<times> lister" where
  "collect w n_tasks [] all_instances completed_tasks s = (all_instances, s)"
| "collect w n_tasks ((reg, cid) # rest) all_instances completed_tasks s =
     (let (instances, s1) = get_stopped_instances_in_region_compartment w s reg cid;
          (all_instances', s2) =
             (if instances \<noteq> []
              then (all_instances @ map (tag_region reg) instances,
                    logmsg ''info'' ''Found {} stopped instances in {}/{}''
                      [N (int (length instances)), S reg,
                       S (dict_get (compartment_cache s1) cid ''Unknown'')] s1)
              else (all_instances, s1));
          completed_tasks' = completed_tasks + 1;
          s3 = (if completed_tasks' mod 10 = 0
                then logmsg ''info'' ''Completed {}/{} scans''
                       [N (int completed_tasks'), N (int n_tasks)] s2
                else s2)
      in collect w n_tasks rest all_instances' completed_tasks' s3)"

definition discover_stopped_instances ::
  "world \<Rightarrow> lister \<Rightarrow> string list \<Rightarrow> string list \<Rightarrow> raw_instance list \<times> lister" where
  "discover_stopped_instances w s regions compartment_ids =
     (let tasks = List.product regions compartment_ids;
          s1 = logmsg ''info'' ''Scanning {} region/compartment combinations for STOPPED instances''
                 [N (int (length tasks))] s;
          (all_instances, s2) = collect w (length tasks) (as_completed w tasks) [] 0 s1;
          s3 = logmsg ''info'' ''Discovery complete: {} stopped instances found''
                 [N (int (length all_instances))]
                 (s2\<lparr>stopped_instances_found := length all_instances\<rparr>)
      in (all_instances, s3))"

subsection \<open>Result processor\<close>

text \<open>\<open>getattr(instance, name, default)\<close> and the plain attribute read.\<close>

definition getattr :: "'a option \<Rightarrow> 'a \<Rightarrow> 'a" where
  "getattr attribute dflt = (case attribute of None \<Rightarrow> dflt | Some v \<Rightarrow> v)"

definition attr :: "string \<Rightarrow> 'a option \<Rightarrow> py_error + 'a" where
  "attr name attribute = (case attribute of None \<Rightarrow> Inl (AttributeError name) | Some v \<Rightarrow> Inr v)"

text \<open>\<open>process_stopped_instance\<close>: the attribute reads in the order of the source.\<close>

definition process_stopped_instance ::
  "world \<Rightarrow> lister \<Rightarrow> raw_instance \<Rightarrow> string \<Rightarrow> py_error + stopped_instance" where
  "process_stopped_instance w s i reg =
     (case attr ''compartment_id'' (inst_compartment_id i) of
        Inl e \<Rightarrow> Inl e
      | Inr cid \<Rightarrow>
          let name_of_compartment = dict_get (compartment_cache s) cid ''Unknown'';
              owner = get_owner_from_tags (inst_defined_tags i) (inst_freeform_tags i)
          in (case attr ''time_created'' (inst_time_created i) of
                Inl e \<Rightarrow> Inl e
              | Inr created \<Rightarrow>
                  let days = calculate_days_since_created (wall_clock w) created
                  in (case attr ''display_name'' (inst_display_name i) of
                        Inl e \<Rightarrow> Inl e
                      | Inr display_name \<Rightarrow>
                          (case attr ''id'' (inst_id i) of
                             Inl e \<Rightarrow> Inl e
                           | Inr iid \<Rightarrow>
                               (case attr ''shape'' (inst_shape i) of
                                  Inl e \<Rightarrow> Inl e
                                | Inr shp \<Rightarrow>
                                    Inr \<lparr>instance_name = display_name,
                                         instance_id = iid,
                                         shape = shp,
                                         region = reg,
                                         availability_domain =
                                           getattr (inst_availability_domain i) ''Unknown'',
                                         compartment_name = name_of_compartment,
                                         compartment_id = cid,
                                         time_created = created,
                                         days_since_created = days,
                                         instance_owner = owner,
                                         fault_domain = getattr (inst_fault_domain i) ''Unknown'',
                                         image_id = getattr (inst_image_id i) ''Unknown''\<rparr>)))))"

text \<open>
  \<open>results.sort(key=..., reverse=True)\<close>: the list is reversed, sorted stably in ascending
  order of the key, and reversed again.
\<close>

definition sort_reverse :: "('a \<Rightarrow> int) \<Rightarrow> 'a list \<Rightarrow> 'a list" where
  "sort_reverse key xs = rev (sort_key key (rev xs))"

text \<open>
  The loop of \<open>process_instances\<close>. The handler of a failed instance formats the warning
  with \<open>instance.id\<close>; when that attribute is missing the handler itself raises, and the
  exception leaves the loop.
\<close>

fun process_loop ::
  "world \<Rightarrow> raw_instance list \<Rightarrow> int \<Rightarrow> stopped_instance list \<Rightarrow> lister
     \<Rightarrow> (py_error + stopped_instance list) \<times> lister" where
  "process_loop w [] min_days results s = (Inr results, s)"
| "process_loop w (i # rest) min_days results s =
     (case process_stopped_instance w s i (getattr (inst_region i) ''unknown'') of
        Inr result \<Rightarrow>
          process_loop w rest min_days
            (if days_since_created result \<ge> min_days then results @ [result] else results) s
      | Inl e \<Rightarrow>
          (case attr ''id'' (inst_id i) of
             Inl e' \<Rightarrow> (Inl e', s)
           | Inr iid \<Rightarrow>
               process_loop w rest min_days results
                 (logmsg ''warning'' ''Error processing instance {}: {}''
                    [S iid, S (error_text e)] s)))"

definition process_instances ::
  "world \<Rightarrow> lister \<Rightarrow> raw_instance list \<Rightarrow> int
     \<Rightarrow> (py_error + stopped_instance list) \<times> lister" where
  "process_instances w s instances min_days =
     (let s1 = logmsg ''info'' ''Processing {} stopped instances''
                 [N (int (length instances))] s
      in (case process_loop w instances min_days [] s1 of
            (Inl e, s2) \<Rightarrow> (Inl e, s2)
          | (Inr results, s2) \<Rightarrow>
              let sorted_results = sort_reverse days_since_created results
              in (Inr sorted_results,
                  logmsg ''info'' ''Processing complete: {} instances over {} day threshold''
                    [N (int (length sorted_results)), N min_days] s2)))"

subsection \<open>The main method and the entry point\<close>

text \<open>The values in the tuple that \<open>list_stopped_instances\<close> returns.\<close>

datatype pyval = PList "stopped_instance list" | PStr string

definition list_stopped_instances ::
  "world \<Rightarrow> lister \<Rightarrow> string list option \<Rightarrow> string list option \<Rightarrow> int \<Rightarrow> string
     \<Rightarrow> (py_error + pyval list) \<times> lister" where
  "list_stopped_instances w s regions compartment_ids min_days output_path =
     (let (regs, s1) = (if \<not> truthy regions then get_subscribed_regions w s
                        else (dict_of regions, s));
          s2 = s1\<lparr>regions_scanned := length regs\<rparr>;
          (compartments, s3) = get_all_compartments w s2 compartment_ids;
          compartment_list = map fst compartments;
          s4 = logmsg ''info'' ''Starting scan: {} regions, {} compartments''
                 [N (int (length regs)), N (int (length compartment_list))]
                 (s3\<lparr>compartments_scanned := length compartment_list\<rparr>);
          (stopped_instances, s5) = discover_stopped_instances w s4 regs compartment_list
      in if stopped_instances = []
         then (Inr [PList [], PStr [], PStr []],
               logmsg ''info'' ''No stopped instances found!'' [] s5)
         else
           (case process_instances w s5 stopped_instances min_days of
              (Inl e, s6) \<Rightarrow> (Inl e, s6)
            | (Inr results, s6) \<Rightarrow>
                if results = []
                then (Inr [PList [], PStr [], PStr []],
                      logmsg ''info'' ''No stopped instances found over {} day threshold!''
                        [N min_days] s6)
                else
                  (case generate_csv_report w results output_path of
                     Inl e \<Rightarrow> (Inl e, s6)
                   | Inr csv_file \<Rightarrow>
                       (case generate_html_report w results output_path of
                          Inl e \<Rightarrow> (Inl e, s6)
                        | Inr html_file \<Rightarrow>
                            (Inr [PList results, PStr csv_file, PStr html_file,
                                  PStr (generate_summary_report w results)], s6)))))"

text \<open>The parsed command line.\<close>

record args =
  arg_min_days :: int
  arg_compartments :: "string option"
  arg_regions :: "string option"
  arg_tenancy_id :: "string option"
  arg_profile :: string
  arg_output_path :: string
  arg_max_workers :: int
  arg_skip_regions :: "string option"
  arg_timeout :: int

text \<open>How a run of \<open>main\<close> ends.\<close>

datatype outcome = Returned | SystemExit nat | Uncaught py_error

text \<open>
  The constructor of the lister with \<open>_setup_oci_config\<close>: every failure of the
  configuration, and a missing tenancy, ends in \<open>sys.exit(1)\<close>.
\<close>

definition new_lister :: "world \<Rightarrow> string \<Rightarrow> string option \<Rightarrow> int \<Rightarrow> (nat \<times> event list) + lister" where
  "new_lister w config_profile tenancy workers =
     (case from_file w config_profile of
        Inl e \<Rightarrow> Inl (1, [Log ''error'' ''OCI config error: {}'' [S (error_text e)]])
      | Inr config_tenancy \<Rightarrow>
          let t = (if truthy tenancy then tenancy else config_tenancy)
          in if truthy t
             then Inr \<lparr>tenancy_id = dict_of t, max_workers = workers, regions_scanned = 0,
                       compartments_scanned = 0, stopped_instances_found = 0,
                       api_calls_made = 0, compartment_cache = [], region_cache = [],
                       trace = [Log ''info'' ''OCI config validated for profile: {}''
                                  [S config_profile],
                                Log ''info'' ''Using tenancy: {}'' [S (dict_of t)]]\<rparr>
             else Inl (1, [Log ''error'' ''OCI config error: {}''
                             [S ''Tenancy ID not found in config or provided'']]))"

text \<open>
  A local variable of a function is unbound until its first assignment; reading it before
  raises \<open>UnboundLocalError\<close>.
\<close>

definition read_local :: "string \<Rightarrow> 'a option \<Rightarrow> py_error + 'a" where
  "read_local name v = (case v of None \<Rightarrow> Inl (UnboundLocalError name) | Some x \<Rightarrow> Inr x)"

text \<open>
  The block \<open>if args.skip_regions:\<close> of \<open>main\<close>. It stands before the first assignments
  of the locals \<open>regions\<close> (line 915) and \<open>lister\<close> (line 927), which are unbound here.
\<close>

definition skip_regions_block :: "args \<Rightarrow> py_error + unit" where
  "skip_regions_block a =
     (let regions_local = (None :: string list option);
          lister_local = (None :: lister option)
      in if truthy (arg_skip_regions a)
         then (let skip_regions = py_split (CHR '','') (dict_of (arg_skip_regions a))
               in (case read_local ''regions'' regions_local of
                     Inl e \<Rightarrow> Inl e
                   | Inr regions \<Rightarrow>
                       (case read_local ''lister'' lister_local of
                          Inl e \<Rightarrow> Inl e
                        | Inr l \<Rightarrow> Inr ())))
         else Inr ())"

text \<open>\<open>results, csv_file, html_file, summary = ...\<close>\<close>

definition unpack4 :: "pyval list \<Rightarrow> py_error + (pyval \<times> pyval \<times> pyval \<times> pyval)" where
  "unpack4 t =
     (case t of
        [a, b, c, d] \<Rightarrow> Inr (a, b, c, d)
      | _ \<Rightarrow> if length t < 4
             then Inl (ValueError ''not enough values to unpack'')
             else Inl (ValueError ''too many values to unpack''))"

text \<open>
  \<open>main\<close> after \<open>parse_args\<close>: how the run ends and the events it leaves. The banner and the
  report paths it prints and the browser it opens are left out.
\<close>

definition main :: "world \<Rightarrow> args \<Rightarrow> outcome \<times> event list" where
  "main w a =
     (case skip_regions_block a of
        Inl e \<Rightarrow> (Uncaught e, [])
      | Inr u \<Rightarrow>
          let compartment_ids = (if truthy (arg_compartments a)
                                 then Some (py_split (CHR '','') (dict_of (arg_compartments a)))
                                 else None);
              regions = (if truthy (arg_regions a)
                         then Some (py_split (CHR '','') (dict_of (arg_regions a)))
                         else None)
          in (case makedirs w (arg_output_path a) of
                Some e \<Rightarrow> (Uncaught e, [])
              | None \<Rightarrow>
                  (case new_lister w (arg_profile a) (arg_tenancy_id a) (arg_max_workers a) of
                     Inl (code, events) \<Rightarrow> (SystemExit code, events)
                   | Inr s \<Rightarrow>
                       (case list_stopped_instances w s regions compartment_ids
                               (arg_min_days a) (arg_output_path a) of
                          (Inl e, s1) \<Rightarrow>
                            (SystemExit 1,
                             trace s1 @ [Print ''Scan failed: {}'' [S (error_text e)]])
                        | (Inr t, s1) \<Rightarrow>
                            (case unpack4 t of
                               Inl e \<Rightarrow>
                                 (SystemExit 1,
                                  trace s1 @ [Print ''Scan failed: {}'' [S (error_text e)]])
                             | Inr (results, csv_file, html_file, summary) \<Rightarrow>
                                 (Returned,
                                  trace s1 @ [Print ''{}'' [case summary of
                                                              PStr x \<Rightarrow> S x
                                                            | PList xs \<Rightarrow> S []]]))))))"

subsection \<open>Example inputs\<close>

text \<open>
  A tenancy with a valid configuration in which every capability answers and nothing is
  found: no subscribed region is ready, no compartment besides the root, no instance. The
  pool finishes the tasks in the order of submission.
\<close>

definition quiet_world :: world where
  "quiet_world =
     \<lparr>from_file = (\<lambda>p. Inr (Some ''ocid1.tenancy.oc1..acme'')),
      makedirs = (\<lambda>p. None),
      wall_clock = \<lparr>year = 2024, month = 3, day = 1, hour = 0, minute = 0, second = 0,
                     microsecond = 0, tzinfo = None\<rparr>,
      identity_client = None,
      list_region_subscriptions = (\<lambda>n. Inr []),
      get_compartment = (\<lambda>n cid. Inl (ServiceError ''NotAuthorizedOrNotFound'')),
      list_compartments = (\<lambda>n. Inr []),
      get_tenancy = (\<lambda>n. Inr ''acme''),
      compute_client = (\<lambda>reg. None),
      list_instances = (\<lambda>reg cid attempt. Inr []),
      as_completed = (\<lambda>tasks. tasks),
      generate_csv_report = (\<lambda>results path. Inr (path @ ''/Stopped_Instances.csv'')),
      generate_html_report = (\<lambda>results path. Inr (path @ ''/Stopped_Instances.html'')),
      generate_summary_report = (\<lambda>results. ''summary'')\<rparr>"

definition default_args :: args where
  "default_args =
     \<lparr>arg_min_days = 0, arg_compartments = None, arg_regions = None, arg_tenancy_id = None,
      arg_profile = ''DEFAULT'', arg_output_path = ''.'', arg_max_workers = 20,
      arg_skip_regions = None, arg_timeout = 300\<rparr>"

text \<open>A lister as its constructor leaves it.\<close>

definition fresh_lister :: lister where
  "fresh_lister =
     \<lparr>tenancy_id = ''ocid1.tenancy.oc1..acme'', max_workers = 20, regions_scanned = 0,
      compartments_scanned = 0, stopped_instances_found = 0, api_calls_made = 0,
      compartment_cache = [], region_cache = [], trace = []\<rparr>"

text \<open>A stopped instance with every attribute, created on the given day of January 2024.\<close>

definition instance_of_day :: "string \<Rightarrow> nat \<Rightarrow> raw_instance" where
  "instance_of_day name d =
     \<lparr>inst_id = Some (''ocid1.instance.'' @ name), inst_display_name = Some name,
      inst_shape = Some ''VM.Standard2.1'', inst_compartment_id = Some ''ocid1.compartment.a'',
      inst_time_created =
        Some (TDatetime \<lparr>year = 2024, month = 1, day = d, hour = 0, minute = 0, second = 0,
                         microsecond = 0, tzinfo = Some 0\<rparr>),
      inst_availability_domain = Some ''AD-1'', inst_fault_domain = None,
      inst_image_id = None, inst_defined_tags = None,
      inst_freeform_tags = Some [(''Owner'', ''ops'')], inst_region = None\<rparr>"

text \<open>A tenancy whose only region subscription is still in progress at the first request.\<close>

definition waking_world :: world where
  "waking_world =
     quiet_world\<lparr>list_region_subscriptions :=
       (\<lambda>n. Inr [\<lparr>region_name = ''eu-frankfurt-1'',
                    status = (if n = 0 then ''IN_PROGRESS'' else ''READY'')\<rparr>])\<rparr>"

text \<open>
  A tenancy with one ready region and one active compartment besides the root; the cell of
  that compartment times out twice and then returns three instances.
\<close>

definition busy_world :: world where
  "busy_world =
     quiet_world\<lparr>
       list_region_subscriptions :=
         (\<lambda>n. Inr [\<lparr>region_name = ''us-ashburn-1'', status = ''READY''\<rparr>,
                    \<lparr>region_name = ''eu-frankfurt-1'', status = ''IN_PROGRESS''\<rparr>]),
       list_compartments :=
         (\<lambda>n. Inr [\<lparr>comp_id = ''ocid1.compartment.a'', comp_name = ''A'',
                     lifecycle_state = ''ACTIVE''\<rparr>,
                    \<lparr>comp_id = ''ocid1.compartment.b'', comp_name = ''B'',
                     lifecycle_state = ''DELETED''\<rparr>]),
       list_instances :=
         (\<lambda>reg cid attempt.
            if cid = ''ocid1.compartment.a''
            then (if attempt < 2 then Inl (ServiceError ''Read Timeout'')
                  else Inr [instance_of_day ''x'' 1, instance_of_day ''y'' 20,
                            instance_of_day ''z'' 1])
            else Inr [])\<rparr>"

text \<open>A configuration whose key cannot be loaded: every client constructor raises.\<close>

definition bad_key_world :: world where
  "bad_key_world =
     quiet_world\<lparr>identity_client := Some (ServiceError ''Could not deserialize key data''),
                 compute_client := (\<lambda>reg. Some (ServiceError ''Could not deserialize key data''))\<rparr>"

text \<open>
  A tenancy in which the cell of us-phoenix-1 and compartment b times out twice and then
  returns one instance, and every other cell is empty.
\<close>

definition flaky_world :: world where
  "flaky_world =
     quiet_world\<lparr>list_instances :=
       (\<lambda>reg cid attempt.
          if reg = ''us-phoenix-1'' \<and> cid = ''ocid1.compartment.b''
          then (if attempt < 2 then Inl (ServiceError ''Read Timeout'')
                else Inr [instance_of_day ''x'' 1])
          else Inr [])\<rparr>"



subsection \<open>Reading a cell's run\<close>

text \<open>The events a run adds to the trace, and the sleeps among them.\<close>

definition events_since :: "lister \<Rightarrow> lister \<Rightarrow> event list" where
  "events_since s s' = drop (length (trace s)) (trace s')"

fun sleeps :: "event list \<Rightarrow> nat list" where
  "sleeps [] = []"
| "sleeps (Sleep n # evs) = n # sleeps evs"
| "sleeps (ev # evs) = sleeps evs"

text \<open>
  How the given attempt of a cell ends: with the error of the client constructor, or with
  the answer of the listing request.
\<close>

definition attempt_outcome :: "world \<Rightarrow> string \<Rightarrow> string \<Rightarrow> nat \<Rightarrow> py_error + raw_instance list" where
  "attempt_outcome w reg cid attempt =
     (case compute_client w reg of
        Some e \<Rightarrow> Inl e
      | None \<Rightarrow> list_instances w reg cid attempt)"

text \<open>An attempt is followed by another one only when it is a transient failure.\<close>

definition transient_failure :: "py_error + raw_instance list \<Rightarrow> bool" where
  "transient_failure r = (case r of Inl e \<Rightarrow> is_transient e | Inr instances \<Rightarrow> False)"

text \<open>The number of attempts a cell takes, and what its last attempt leaves.\<close>

definition tries :: "world \<Rightarrow> string \<Rightarrow> string \<Rightarrow> nat" where
  "tries w reg cid =
     (if \<not> transient_failure (attempt_outcome w reg cid 0) then 1
      else if \<not> transient_failure (attempt_outcome w reg cid 1) then 2
      else 3)"

definition cell_result :: "world \<Rightarrow> string \<Rightarrow> string \<Rightarrow> raw_instance list" where
  "cell_result w reg cid =
     (case attempt_outcome w reg cid (tries w reg cid - 1) of
        Inr instances \<Rightarrow> instances
      | Inl e \<Rightarrow> [])"

subsection \<open>Reading a batch\<close>

text \<open>
  The reports of a batch: one for every instance that \<open>process_stopped_instance\<close> maps,
  in the order of the batch, none for an instance on which it raises.
\<close>

definition mapped :: "world \<Rightarrow> lister \<Rightarrow> raw_instance list \<Rightarrow> stopped_instance list" where
  "mapped w s instances =
     concat (map (\<lambda>i. case process_stopped_instance w s i (getattr (inst_region i) ''unknown'') of
                         Inr r \<Rightarrow> [r]
                       | Inl e \<Rightarrow> [])
               instances)"

section \<open>Properties\<close>

subsection \<open>Owner lookup\<close>

lemma first_key_hit:
  "ks = pre @ k # post \<Longrightarrow> \<forall>k' \<in> set pre. \<not> py_in k' d \<Longrightarrow> map_of d k = Some v
     \<Longrightarrow> first_key ks d = Some v"
  by (induction pre arbitrary: ks) (auto simp: py_in_def)

lemma first_key_miss: "\<forall>k \<in> set ks. \<not> py_in k d \<Longrightarrow> first_key ks d = None"
  by (induction ks) auto

lemma first_key_None_iff: "first_key ks d = None \<longleftrightarrow> (\<forall>k \<in> set ks. \<not> py_in k d)"
  by (induction ks) (auto simp: py_in_def)

lemma scan_namespaces_hit:
  "dt = dpre @ (ns, TagDict d) # dpost \<Longrightarrow> \<forall>p \<in> set dpre. \<not> offers_owner (snd p)
     \<Longrightarrow> first_key defined_keys d = Some v \<Longrightarrow> scan_namespaces dt = Some v"
proof (induction dpre arbitrary: dt)
  case Nil
  then show ?case by simp
next
  case (Cons p dpre)
  obtain n x where p: "p = (n, x)" by (cases p)
  from Cons.prems(2) p have no: "\<not> offers_owner x" by simp
  have rest: "scan_namespaces (dpre @ (ns, TagDict d) # dpost) = Some v"
    using Cons.IH [OF refl] Cons.prems(2,3) by simp
  show ?case
  proof (cases x)
    case (TagDict e)
    with no have "first_key defined_keys e = None"
      by (simp add: first_key_None_iff)
    with rest show ?thesis using Cons.prems(1) p TagDict by simp
  next
    case NotADict
    with rest show ?thesis using Cons.prems(1) p by simp
  qed
qed

lemma scan_namespaces_miss:
  "\<forall>p \<in> set dt. \<not> offers_owner (snd p) \<Longrightarrow> scan_namespaces dt = None"
proof (induction dt rule: scan_namespaces.induct)
  case 1
  then show ?case by simp
next
  case (2 namespace d rest)
  then have "first_key defined_keys d = None"
    by (simp add: first_key_None_iff)
  with 2 show ?case by simp
next
  case (3 namespace rest)
  then show ?case by simp
qed

lemma owner_from_freeform:
  assumes "first_key freeform_keys (dict_of freeform) = Some v"
  shows "get_owner_from_tags defined freeform = v"
proof (cases freeform)
  case None
  with assms show ?thesis by (simp add: dict_of_def freeform_keys_def py_in_def)
next
  case (Some ff)
  with assms have "ff \<noteq> []" by (auto simp: dict_of_def freeform_keys_def py_in_def)
  with assms Some show ?thesis by (simp add: get_owner_from_tags_def dict_of_def)
qed

lemma owner_from_defined:
  assumes "first_key freeform_keys (dict_of freeform) = None"
  shows "get_owner_from_tags defined freeform =
           (case scan_namespaces (dict_of defined) of Some v \<Rightarrow> v | None \<Rightarrow> ''Unknown'')"
proof -
  have ff: "(case freeform of None \<Rightarrow> None
             | Some ff \<Rightarrow> if ff \<noteq> [] then first_key freeform_keys ff else None) = None"
    using assms by (cases freeform) (auto simp: dict_of_def)
  have dt: "(case defined of None \<Rightarrow> None
             | Some dt \<Rightarrow> if dt \<noteq> [] then scan_namespaces dt else None)
            = scan_namespaces (dict_of defined)"
    by (cases defined) (auto simp: dict_of_def)
  show ?thesis unfolding get_owner_from_tags_def ff dt by simp
qed

text \<open>
  C4. The owner is the value of the first key of Owner, CreatedBy, Contact, Maintainer,
  Team that the freeform tags hold, whatever the defined tags are. When the freeform tags
  hold none of them, it is taken from the first namespace (in iteration order) that is a
  dictionary holding one of Owner, CreatedBy, Contact, ApplicationOwner, and there from the
  first of these keys that is present. When no namespace offers one either, the owner is
  "Unknown".
\<close>

theorem get_owner_from_tags_priority:
  "(\<forall>pre k post v.
      freeform_keys = pre @ k # post \<and> (\<forall>k' \<in> set pre. \<not> py_in k' (dict_of freeform))
        \<and> map_of (dict_of freeform) k = Some v
      \<longrightarrow> get_owner_from_tags defined freeform = v)
   \<and> (\<forall>dpre ns d dpost kpre k kpost v.
      (\<forall>k' \<in> set freeform_keys. \<not> py_in k' (dict_of freeform))
        \<and> dict_of defined = dpre @ (ns, TagDict d) # dpost
        \<and> (\<forall>p \<in> set dpre. \<not> offers_owner (snd p))
        \<and> defined_keys = kpre @ k # kpost \<and> (\<forall>k' \<in> set kpre. \<not> py_in k' d)
        \<and> map_of d k = Some v
      \<longrightarrow> get_owner_from_tags defined freeform = v)
   \<and> ((\<forall>k' \<in> set freeform_keys. \<not> py_in k' (dict_of freeform))
        \<and> (\<forall>p \<in> set (dict_of defined). \<not> offers_owner (snd p))
      \<longrightarrow> get_owner_from_tags defined freeform = ''Unknown'')"
proof (intro conjI allI impI)
  fix pre k post v
  assume "freeform_keys = pre @ k # post \<and> (\<forall>k' \<in> set pre. \<not> py_in k' (dict_of freeform))
            \<and> map_of (dict_of freeform) k = Some v"
  then have "first_key freeform_keys (dict_of freeform) = Some v"
    using first_key_hit by blast
  then show "get_owner_from_tags defined freeform = v"
    by (rule owner_from_freeform)
next
  fix dpre ns d dpost kpre k kpost v
  assume a: "(\<forall>k' \<in> set freeform_keys. \<not> py_in k' (dict_of freeform))
        \<and> dict_of defined = dpre @ (ns, TagDict d) # dpost
        \<and> (\<forall>p \<in> set dpre. \<not> offers_owner (snd p))
        \<and> defined_keys = kpre @ k # kpost \<and> (\<forall>k' \<in> set kpre. \<not> py_in k' d)
        \<and> map_of d k = Some v"
  then have none: "first_key freeform_keys (dict_of freeform) = None"
    by (simp add: first_key_miss)
  from a have "first_key defined_keys d = Some v"
    using first_key_hit by blast
  with a have "scan_namespaces (dict_of defined) = Some v"
    using scan_namespaces_hit by blast
  with owner_from_defined [OF none, of defined]
  show "get_owner_from_tags defined freeform = v" by simp
next
  assume a: "(\<forall>k' \<in> set freeform_keys. \<not> py_in k' (dict_of freeform))
        \<and> (\<forall>p \<in> set (dict_of defined). \<not> offers_owner (snd p))"
  then have none: "first_key freeform_keys (dict_of freeform) = None"
    by (simp add: first_key_miss)
  from a have "scan_namespaces (dict_of defined) = None"
    by (simp add: scan_namespaces_miss)
  with owner_from_defined [OF none, of defined]
  show "get_owner_from_tags defined freeform = ''Unknown''" by simp
qed

theorem get_owner_from_tags_priority_witness:
  "get_owner_from_tags (Some [(''ns'', TagDict [(''Owner'', ''d1'')])])
       (Some [(''Team'', ''t1''), (''Contact'', ''c1'')]) = ''c1''
   \<and> get_owner_from_tags
       (Some [(''a'', NotADict), (''b'', TagDict [(''Cost'', ''x'')]),
              (''c'', TagDict [(''ApplicationOwner'', ''ao''), (''Contact'', ''ct'')]),
              (''d'', TagDict [(''Owner'', ''late'')])])
       (Some [(''Env'', ''prod'')]) = ''ct''
   \<and> get_owner_from_tags (Some [(''a'', NotADict), (''b'', TagDict [(''Cost'', ''x'')])]) None
       = ''Unknown''"
proof (intro conjI)
  show "get_owner_from_tags (Some [(''ns'', TagDict [(''Owner'', ''d1'')])])
       (Some [(''Team'', ''t1''), (''Contact'', ''c1'')]) = ''c1''"
    using get_owner_from_tags_priority
      [where freeform = "Some [(''Team'', ''t1''), (''Contact'', ''c1'')]"
         and defined = "Some [(''ns'', TagDict [(''Owner'', ''d1'')])]",
       THEN conjunct1, rule_format,
       of "[''Owner'', ''CreatedBy'']" "''Contact''" "[''Maintainer'', ''Team'']" "''c1''"]
    by (simp add: freeform_keys_def dict_of_def py_in_def)
next
  show "get_owner_from_tags
       (Some [(''a'', NotADict), (''b'', TagDict [(''Cost'', ''x'')]),
              (''c'', TagDict [(''ApplicationOwner'', ''ao''), (''Contact'', ''ct'')]),
              (''d'', TagDict [(''Owner'', ''late'')])])
       (Some [(''Env'', ''prod'')]) = ''ct''"
    using get_owner_from_tags_priority
      [where freeform = "Some [(''Env'', ''prod'')]"
         and defined = "Some [(''a'', NotADict), (''b'', TagDict [(''Cost'', ''x'')]),
              (''c'', TagDict [(''ApplicationOwner'', ''ao''), (''Contact'', ''ct'')]),
              (''d'', TagDict [(''Owner'', ''late'')])]",
       THEN conjunct2, THEN conjunct1, rule_format,
       of "[(''a'', NotADict), (''b'', TagDict [(''Cost'', ''x'')])]" "''c''"
          "[(''ApplicationOwner'', ''ao''), (''Contact'', ''ct'')]"
          "[(''d'', TagDict [(''Owner'', ''late'')])]"
          "[''Owner'', ''CreatedBy'']" "''Contact''" "[''ApplicationOwner'']" "''ct''"]
    by (simp add: freeform_keys_def defined_keys_def dict_of_def py_in_def)
next
  show "get_owner_from_tags (Some [(''a'', NotADict), (''b'', TagDict [(''Cost'', ''x'')])]) None
       = ''Unknown''"
    using get_owner_from_tags_priority
      [where freeform = None
         and defined = "Some [(''a'', NotADict), (''b'', TagDict [(''Cost'', ''x'')])]",
       THEN conjunct2, THEN conjunct2]
    by (simp add: freeform_keys_def defined_keys_def dict_of_def py_in_def)
qed

subsection \<open>Age in days\<close>


lemmas days_defs = timedelta_days_def utc_now_def local_microseconds_def ymd2ord_def
  days_before_year_def days_before_month_def days_in_month_def is_leap_def
  day_microseconds_def upt_rec



lemma of_char_digit_char [simp]: "(of_char (digit_char n) :: nat) = 48 + n mod 10"
proof -
  have "48 + n mod 10 < 256" by (simp add: less_le_trans [OF mod_less_divisor])
  then show ?thesis unfolding digit_char_def by (simp add: of_char_of)
qed

lemma is_digit_digit_char [simp]: "is_digit (digit_char n)"
  by (simp add: is_digit_def)

lemma digit_val_digit_char [simp]: "digit_val (digit_char n) = n mod 10"
  by (simp add: digit_val_def)

lemma digit_char_neq: "(of_char c :: nat) < 48 \<or> 57 < (of_char c :: nat) \<Longrightarrow> digit_char n \<noteq> c"
proof
  assume a: "(of_char c :: nat) < 48 \<or> 57 < (of_char c :: nat)" and "digit_char n = c"
  then have "(of_char c :: nat) = 48 + n mod 10" by (simp flip: of_char_digit_char)
  moreover have "n mod 10 < 10" by simp
  ultimately show False using a by linarith
qed

lemma digit_char_neq_simps [simp]:
  "digit_char n \<noteq> CHR ''-''" "digit_char n \<noteq> CHR ''+''" "digit_char n \<noteq> CHR ''Z''"
  "digit_char n \<noteq> CHR ''.''" "digit_char n \<noteq> CHR '':''"
  "CHR ''-'' \<noteq> digit_char n" "CHR ''+'' \<noteq> digit_char n" "CHR ''Z'' \<noteq> digit_char n"
  "CHR ''.'' \<noteq> digit_char n" "CHR '':'' \<noteq> digit_char n"
  using digit_char_neq [of "CHR ''-''" n] digit_char_neq [of "CHR ''+''" n]
    digit_char_neq [of "CHR ''Z''" n] digit_char_neq [of "CHR ''.''" n]
    digit_char_neq [of "CHR '':''" n]
  by (simp_all add: eq_commute)














lemma length_pads [simp]: "length (pad2 n) = 2" "length (pad3 n) = 3" "length (pad4 n) = 4"
  "length (pad6 n) = 6"
  by (simp_all add: pad2_def pad3_def pad4_def pad6_def)

lemma pads_free_of [simp]:
  "c \<in> {CHR ''-'', CHR ''+'', CHR ''Z'', CHR ''.'', CHR '':''} \<Longrightarrow> c \<notin> set (pad2 n)"
  "c \<in> {CHR ''-'', CHR ''+'', CHR ''Z'', CHR ''.'', CHR '':''} \<Longrightarrow> c \<notin> set (pad3 n)"
  "c \<in> {CHR ''-'', CHR ''+'', CHR ''Z'', CHR ''.'', CHR '':''} \<Longrightarrow> c \<notin> set (pad4 n)"
  "c \<in> {CHR ''-'', CHR ''+'', CHR ''Z'', CHR ''.'', CHR '':''} \<Longrightarrow> c \<notin> set (pad6 n)"
  by (auto simp: pad2_def pad3_def pad4_def pad6_def)




































subsection \<open>Region and compartment resolver\<close>

lemma regions_cached: "region_cache s \<noteq> [] \<Longrightarrow> get_subscribed_regions w s = (region_cache s, s)"
  by (simp add: get_subscribed_regions_def)

lemma regions_fresh_ok:
  assumes "region_cache s = []" "identity_client w = None"
    "list_region_subscriptions w (length (trace s)) = Inr subs"
  shows "fst (get_subscribed_regions w s)
           = map region_name (filter (\<lambda>r. status r = ''READY'') subs)"
    and "region_cache (snd (get_subscribed_regions w s)) = fst (get_subscribed_regions w s)"
  using assms by (simp_all add: get_subscribed_regions_def Let_def logmsg_def)

lemma regions_fresh_fail:
  assumes "region_cache s = []"
    "identity_client w = Some e
       \<or> identity_client w = None \<and> list_region_subscriptions w (length (trace s)) = Inl e"
  shows "fst (get_subscribed_regions w s) = [''us-ashburn-1'', ''us-phoenix-1'']"
    and "region_cache (snd (get_subscribed_regions w s)) = fst (get_subscribed_regions w s)"
  using assms by (auto simp: get_subscribed_regions_def Let_def logmsg_def fallback_regions_def)

lemma regions_cache_is_result:
  "fst (get_subscribed_regions w s) \<noteq> []
     \<Longrightarrow> region_cache (snd (get_subscribed_regions w s)) = fst (get_subscribed_regions w s)"
  by (auto simp: get_subscribed_regions_def Let_def logmsg_def fallback_regions_def
      split: option.splits sum.splits)

lemma dict_set_nonempty [simp]: "dict_set k v d \<noteq> []"
  by (cases d) auto

lemma by_id_nonempty:
  "ids \<noteq> [] \<or> compartment_cache s \<noteq> []
     \<Longrightarrow> compartment_cache (get_compartments_by_id w ids s) \<noteq> []"
  by (induction ids arbitrary: s) (auto simp: Let_def api_call_def)

lemma compartments_cache_is_result:
  "compartment_cache (snd (get_all_compartments w s ids)) = fst (get_all_compartments w s ids)"
  by (auto simp: get_all_compartments_def compartments_found_def compartments_fallback_def
      Let_def logmsg_def split: option.splits sum.splits)

lemma compartments_nonempty: "fst (get_all_compartments w s ids) \<noteq> []"
proof (cases "compartment_cache s = []")
  case False
  then show ?thesis by (simp add: get_all_compartments_def)
next
  case True
  show ?thesis
  proof (cases "truthy ids")
    case t: True
    then have "dict_of ids \<noteq> []" by (auto simp: truthy_def dict_of_def split: option.splits)
    then show ?thesis using True t by_id_nonempty [of "dict_of ids" s w]
      by (auto simp: get_all_compartments_def compartments_found_def compartments_fallback_def
          Let_def logmsg_def split: option.splits sum.splits)
  next
    case f: False
    then show ?thesis using True
      by (auto simp: get_all_compartments_def compartments_found_def compartments_fallback_def
          Let_def logmsg_def split: option.splits sum.splits)
  qed
qed

lemma compartments_cached:
  "compartment_cache s \<noteq> [] \<Longrightarrow> get_all_compartments w s ids = (compartment_cache s, s)"
  by (simp add: get_all_compartments_def)


text \<open>
  C8. On a lister whose region cache is empty, the resolver returns the names of exactly the
  subscriptions whose status is READY, in the order of the answer; when the client
  constructor or the request raises, whatever the error, it returns us-ashburn-1 and
  us-phoenix-1. Either way the result is what the cache then holds.
\<close>

theorem get_subscribed_regions_ready_or_fallback:
  "region_cache s = [] \<longrightarrow>
     (\<forall>subs. identity_client w = None
               \<and> list_region_subscriptions w (length (trace s)) = Inr subs
        \<longrightarrow> fst (get_subscribed_regions w s)
              = map region_name (filter (\<lambda>r. status r = ''READY'') subs)
            \<and> (\<forall>n \<in> set (fst (get_subscribed_regions w s)).
                  \<exists>r \<in> set subs. region_name r = n \<and> status r = ''READY''))
     \<and> (\<forall>e. identity_client w = Some e
              \<or> identity_client w = None
                  \<and> list_region_subscriptions w (length (trace s)) = Inl e
        \<longrightarrow> fst (get_subscribed_regions w s) = [''us-ashburn-1'', ''us-phoenix-1''])
     \<and> region_cache (snd (get_subscribed_regions w s)) = fst (get_subscribed_regions w s)"
proof (intro impI conjI allI)
  fix subs
  assume fresh: "region_cache s = []"
    and ok: "identity_client w = None
               \<and> list_region_subscriptions w (length (trace s)) = Inr subs"
  then show eq: "fst (get_subscribed_regions w s)
              = map region_name (filter (\<lambda>r. status r = ''READY'') subs)"
    using regions_fresh_ok(1) by blast
  show "\<forall>n \<in> set (fst (get_subscribed_regions w s)).
                  \<exists>r \<in> set subs. region_name r = n \<and> status r = ''READY''"
    unfolding eq by auto
next
  fix e
  assume "region_cache s = []"
    and "identity_client w = Some e
              \<or> identity_client w = None
                  \<and> list_region_subscriptions w (length (trace s)) = Inl e"
  then show "fst (get_subscribed_regions w s) = [''us-ashburn-1'', ''us-phoenix-1'']"
    by (rule regions_fresh_fail(1))
next
  assume fresh: "region_cache s = []"
  show "region_cache (snd (get_subscribed_regions w s)) = fst (get_subscribed_regions w s)"
  proof (cases "identity_client w")
    case (Some e)
    with fresh show ?thesis using regions_fresh_fail(2) by blast
  next
    case None
    show ?thesis
    proof (cases "list_region_subscriptions w (length (trace s))")
      case (Inl e)
      with fresh None show ?thesis using regions_fresh_fail(2) by blast
    next
      case (Inr subs)
      with fresh None show ?thesis using regions_fresh_ok(2) by blast
    qed
  qed
qed

theorem get_subscribed_regions_ready_or_fallback_witness:
  "fst (get_subscribed_regions busy_world fresh_lister) = [''us-ashburn-1'']
   \<and> fst (get_subscribed_regions bad_key_world fresh_lister) = [''us-ashburn-1'', ''us-phoenix-1'']
   \<and> fst (get_subscribed_regions
        (quiet_world\<lparr>list_region_subscriptions := (\<lambda>n. Inl (ServiceError ''503''))\<rparr>)
        fresh_lister) = [''us-ashburn-1'', ''us-phoenix-1'']
   \<and> region_cache (snd (get_subscribed_regions busy_world fresh_lister)) = [''us-ashburn-1'']"
proof -
  have fresh: "region_cache fresh_lister = []" by (simp add: fresh_lister_def)
  note a = get_subscribed_regions_ready_or_fallback [of fresh_lister busy_world, rule_format, OF fresh]
  have 1: "fst (get_subscribed_regions busy_world fresh_lister) = [''us-ashburn-1'']"
    using a [THEN conjunct1, rule_format,
        of "[\<lparr>region_name = ''us-ashburn-1'', status = ''READY''\<rparr>,
             \<lparr>region_name = ''eu-frankfurt-1'', status = ''IN_PROGRESS''\<rparr>]"]
    by (simp add: busy_world_def quiet_world_def)
  have 2: "fst (get_subscribed_regions bad_key_world fresh_lister)
             = [''us-ashburn-1'', ''us-phoenix-1'']"
    using get_subscribed_regions_ready_or_fallback [of fresh_lister bad_key_world, rule_format,
        OF fresh, THEN conjunct2, THEN conjunct1, rule_format,
        of "ServiceError ''Could not deserialize key data''"]
    by (simp add: bad_key_world_def quiet_world_def)
  have 3: "fst (get_subscribed_regions
        (quiet_world\<lparr>list_region_subscriptions := (\<lambda>n. Inl (ServiceError ''503''))\<rparr>)
        fresh_lister) = [''us-ashburn-1'', ''us-phoenix-1'']"
    using get_subscribed_regions_ready_or_fallback [of fresh_lister
        "quiet_world\<lparr>list_region_subscriptions := (\<lambda>n. Inl (ServiceError ''503''))\<rparr>",
        rule_format, OF fresh, THEN conjunct2, THEN conjunct1, rule_format,
        of "ServiceError ''503''"]
    by (simp add: quiet_world_def)
  have 4: "region_cache (snd (get_subscribed_regions busy_world fresh_lister)) = [''us-ashburn-1'']"
    using a [THEN conjunct2, THEN conjunct2] 1 by simp
  from 1 2 3 4 show ?thesis by simp
qed

lemma compartments_listing_fails:
  assumes "compartment_cache s = []" "\<not> truthy ids" "identity_client w = None"
    "list_compartments w (length (trace s)) = Inl e"
  shows "fst (get_all_compartments w s ids) = [(tenancy_id s, ''Root Compartment'')]"
  using assms
  by (simp add: get_all_compartments_def compartments_fallback_def Let_def logmsg_def
      api_call_def)

lemma process_compartment_name:
  assumes "process_stopped_instance w s i reg = Inr r"
  shows "\<exists>cid. inst_compartment_id i = Some cid
           \<and> compartment_name r = dict_get (compartment_cache s) cid ''Unknown''"
  using assms
  by (auto simp: process_stopped_instance_def attr_def Let_def split: option.splits)

text \<open>
  C10. With no explicit compartment ids, on a lister whose compartment cache is empty, a
  listing request that raises (whatever the error) does not stop the resolver: it returns
  the one-entry mapping from the tenancy id to "Root Compartment" and caches it. With that
  cache, the name looked up for any other compartment id is "Unknown", and so is the
  compartment name of every report built for an instance of another compartment.
\<close>

theorem get_all_compartments_listing_failure:
  "compartment_cache s = [] \<and> \<not> truthy ids \<and> identity_client w = None
     \<and> list_compartments w (length (trace s)) = Inl e
   \<longrightarrow> fst (get_all_compartments w s ids) = [(tenancy_id s, ''Root Compartment'')]
       \<and> compartment_cache (snd (get_all_compartments w s ids))
           = [(tenancy_id s, ''Root Compartment'')]
       \<and> (\<forall>s' cid. compartment_cache s' = compartment_cache (snd (get_all_compartments w s ids))
                     \<and> cid \<noteq> tenancy_id s
             \<longrightarrow> dict_get (compartment_cache s') cid ''Unknown'' = ''Unknown'')
       \<and> (\<forall>s' i reg r.
             compartment_cache s' = compartment_cache (snd (get_all_compartments w s ids))
               \<and> inst_compartment_id i \<noteq> Some (tenancy_id s)
               \<and> process_stopped_instance w s' i reg = Inr r
             \<longrightarrow> compartment_name r = ''Unknown'')"
proof (intro impI)
  assume a: "compartment_cache s = [] \<and> \<not> truthy ids \<and> identity_client w = None
     \<and> list_compartments w (length (trace s)) = Inl e"
  then have res: "fst (get_all_compartments w s ids) = [(tenancy_id s, ''Root Compartment'')]"
    using compartments_listing_fails by blast
  then have cache: "compartment_cache (snd (get_all_compartments w s ids))
           = [(tenancy_id s, ''Root Compartment'')]"
    by (simp add: compartments_cache_is_result)
  have look: "dict_get (compartment_cache s') cid ''Unknown'' = ''Unknown''"
    if "compartment_cache s' = compartment_cache (snd (get_all_compartments w s ids))"
      and "cid \<noteq> tenancy_id s" for s' cid
    using that cache by (simp add: dict_get_def)
  have rep: "compartment_name r = ''Unknown''"
    if c: "compartment_cache s' = compartment_cache (snd (get_all_compartments w s ids))"
      and i: "inst_compartment_id i \<noteq> Some (tenancy_id s)"
      and p: "process_stopped_instance w s' i reg = Inr r" for s' i reg r
  proof -
    from process_compartment_name [OF p] obtain cid
      where cid: "inst_compartment_id i = Some cid"
        and nm: "compartment_name r = dict_get (compartment_cache s') cid ''Unknown''"
      by blast
    from cid i have "cid \<noteq> tenancy_id s" by auto
    with look [OF c] nm show ?thesis by simp
  qed
  from res cache look rep
  show "fst (get_all_compartments w s ids) = [(tenancy_id s, ''Root Compartment'')]
       \<and> compartment_cache (snd (get_all_compartments w s ids))
           = [(tenancy_id s, ''Root Compartment'')]
       \<and> (\<forall>s' cid. compartment_cache s' = compartment_cache (snd (get_all_compartments w s ids))
                     \<and> cid \<noteq> tenancy_id s
             \<longrightarrow> dict_get (compartment_cache s') cid ''Unknown'' = ''Unknown'')
       \<and> (\<forall>s' i reg r.
             compartment_cache s' = compartment_cache (snd (get_all_compartments w s ids))
               \<and> inst_compartment_id i \<noteq> Some (tenancy_id s)
               \<and> process_stopped_instance w s' i reg = Inr r
             \<longrightarrow> compartment_name r = ''Unknown'')"
    by blast
qed

theorem get_all_compartments_listing_failure_witness:
  "fst (get_all_compartments
          (quiet_world\<lparr>list_compartments := (\<lambda>n. Inl (ServiceError ''NotAuthorized''))\<rparr>)
          fresh_lister None)
     = [(''ocid1.tenancy.oc1..acme'', ''Root Compartment'')]
   \<and> dict_get (compartment_cache (snd (get_all_compartments
          (quiet_world\<lparr>list_compartments := (\<lambda>n. Inl (ServiceError ''NotAuthorized''))\<rparr>)
          fresh_lister None))) ''ocid1.compartment.a'' ''Unknown'' = ''Unknown''
   \<and> map compartment_name
       (case process_stopped_instance
          (quiet_world\<lparr>list_compartments := (\<lambda>n. Inl (ServiceError ''NotAuthorized''))\<rparr>)
          (snd (get_all_compartments
          (quiet_world\<lparr>list_compartments := (\<lambda>n. Inl (ServiceError ''NotAuthorized''))\<rparr>)
          fresh_lister None)) (instance_of_day ''x'' 1) ''us-ashburn-1'' of
          Inr r \<Rightarrow> [r] | Inl e \<Rightarrow> []) = [''Unknown'']"
proof -
  let ?w = "quiet_world\<lparr>list_compartments := (\<lambda>n. Inl (ServiceError ''NotAuthorized''))\<rparr>"
  let ?s = "snd (get_all_compartments ?w fresh_lister None)"
  let ?r = "\<lparr>instance_name = ''x'', instance_id = ''ocid1.instance.x'',
           shape = ''VM.Standard2.1'', region = ''us-ashburn-1'',
           availability_domain = ''AD-1'', compartment_name = ''Unknown'',
           compartment_id = ''ocid1.compartment.a'',
           time_created =
             TDatetime
              \<lparr>year = 2024, month = 1, day = 1, hour = 0, minute = 0,
                 second = 0, microsecond = 0, tzinfo = Some 0\<rparr>,
           days_since_created = 60, instance_owner = ''ops'',
           fault_domain = ''Unknown'', image_id = ''Unknown''\<rparr>"
  have pre: "compartment_cache fresh_lister = [] \<and> \<not> truthy None \<and> identity_client ?w = None
     \<and> list_compartments ?w (length (trace fresh_lister)) = Inl (ServiceError ''NotAuthorized'')"
    by (simp add: fresh_lister_def truthy_def quiet_world_def)
  note t = get_all_compartments_listing_failure [of fresh_lister None ?w
      "ServiceError ''NotAuthorized''", rule_format, OF pre]
  have 1: "fst (get_all_compartments ?w fresh_lister None)
     = [(''ocid1.tenancy.oc1..acme'', ''Root Compartment'')]"
    using t [THEN conjunct1] by (simp add: fresh_lister_def)
  have 2: "dict_get (compartment_cache ?s) ''ocid1.compartment.a'' ''Unknown'' = ''Unknown''"
    using t [THEN conjunct2, THEN conjunct2, THEN conjunct1, rule_format,
        of ?s "''ocid1.compartment.a''"]
    by (simp add: fresh_lister_def)
  have cache: "compartment_cache ?s = [(''ocid1.tenancy.oc1..acme'', ''Root Compartment'')]"
    using t [THEN conjunct2, THEN conjunct1] by (simp add: fresh_lister_def)
  have clk: "wall_clock ?w = \<lparr>year = 2024, month = 3, day = 1, hour = 0, minute = 0,
      second = 0, microsecond = 0, tzinfo = None\<rparr>"
    by (simp add: quiet_world_def)
  have p: "process_stopped_instance ?w ?s (instance_of_day ''x'' 1) ''us-ashburn-1'' = Inr ?r"
    by (simp add: process_stopped_instance_def attr_def getattr_def instance_of_day_def cache
        dict_get_def get_owner_from_tags_def freeform_keys_def py_in_def clk
        calculate_days_since_created_def created_dt_of_def days_defs)
  have 3: "compartment_name ?r = ''Unknown''"
    using t [THEN conjunct2, THEN conjunct2, THEN conjunct2, rule_format,
        of ?s "instance_of_day ''x'' 1" "''us-ashburn-1''" ?r] p
    by (simp add: instance_of_day_def fresh_lister_def)
  from 1 2 3 p show ?thesis by simp
qed

text \<open>
  C6, as the code has it. A second resolution of the regions returns the first result and
  changes nothing (no request, no event) whenever the first result is not empty; an empty
  first result is not kept, and the second call asks again. A second resolution of the
  compartments always returns the first result and changes nothing, whatever ids it is
  given.
\<close>

theorem resolvers_memoized:
  "(fst (get_subscribed_regions w s) \<noteq> []
      \<longrightarrow> get_subscribed_regions w (snd (get_subscribed_regions w s))
            = get_subscribed_regions w s)
   \<and> get_all_compartments w (snd (get_all_compartments w s ids)) ids'
       = get_all_compartments w s ids"
proof
  show "fst (get_subscribed_regions w s) \<noteq> []
      \<longrightarrow> get_subscribed_regions w (snd (get_subscribed_regions w s))
            = get_subscribed_regions w s"
  proof
    assume ne: "fst (get_subscribed_regions w s) \<noteq> []"
    then have c: "region_cache (snd (get_subscribed_regions w s))
                    = fst (get_subscribed_regions w s)"
      by (rule regions_cache_is_result)
    with ne have "get_subscribed_regions w (snd (get_subscribed_regions w s))
        = (fst (get_subscribed_regions w s), snd (get_subscribed_regions w s))"
      by (simp add: regions_cached)
    then show "get_subscribed_regions w (snd (get_subscribed_regions w s))
            = get_subscribed_regions w s"
      by simp
  qed
next
  have c: "compartment_cache (snd (get_all_compartments w s ids))
             = fst (get_all_compartments w s ids)"
    by (rule compartments_cache_is_result)
  have "compartment_cache (snd (get_all_compartments w s ids)) \<noteq> []"
    unfolding c by (rule compartments_nonempty)
  then have "get_all_compartments w (snd (get_all_compartments w s ids)) ids'
      = (fst (get_all_compartments w s ids), snd (get_all_compartments w s ids))"
    by (simp add: compartments_cached c)
  then show "get_all_compartments w (snd (get_all_compartments w s ids)) ids'
       = get_all_compartments w s ids"
    by simp
qed

lemma busy_regions:
  "get_subscribed_regions busy_world fresh_lister
     = ([''us-ashburn-1''],
        fresh_lister\<lparr>api_calls_made := 1, region_cache := [''us-ashburn-1''],
          trace := [ApiCall ''list_region_subscriptions'' [''ocid1.tenancy.oc1..acme''],
                    Log ''info'' ''Found {} subscribed regions'' [N 1]]\<rparr>)"
  by (simp add: get_subscribed_regions_def busy_world_def quiet_world_def fresh_lister_def
      api_call_def logmsg_def Let_def)

theorem resolvers_memoized_witness:
  "get_subscribed_regions busy_world (snd (get_subscribed_regions busy_world fresh_lister))
     = ([''us-ashburn-1''],
        fresh_lister\<lparr>api_calls_made := 1, region_cache := [''us-ashburn-1''],
          trace := [ApiCall ''list_region_subscriptions'' [''ocid1.tenancy.oc1..acme''],
                    Log ''info'' ''Found {} subscribed regions'' [N 1]]\<rparr>)"
  using resolvers_memoized [of busy_world fresh_lister, THEN conjunct1] busy_regions
  by simp

lemma waking_first:
  "get_subscribed_regions waking_world fresh_lister
     = ([], fresh_lister\<lparr>api_calls_made := 1,
          trace := [ApiCall ''list_region_subscriptions'' [''ocid1.tenancy.oc1..acme''],
                    Log ''info'' ''Found {} subscribed regions'' [N 0]]\<rparr>)"
  by (simp add: get_subscribed_regions_def waking_world_def quiet_world_def fresh_lister_def
      api_call_def logmsg_def Let_def)

text \<open>
  Counterexample to C6 as stated, where the first resolution finds no ready region: the second call issues
  a second request and returns what the capability answers then.
\<close>

theorem regions_not_memoized_when_empty:
  "fst (get_subscribed_regions waking_world fresh_lister) = []
   \<and> fst (get_subscribed_regions waking_world
            (snd (get_subscribed_regions waking_world fresh_lister))) = [''eu-frankfurt-1'']
   \<and> api_calls_made (snd (get_subscribed_regions waking_world fresh_lister)) = 1
   \<and> api_calls_made (snd (get_subscribed_regions waking_world
            (snd (get_subscribed_regions waking_world fresh_lister)))) = 2"
  unfolding waking_first
  by (simp add: get_subscribed_regions_def waking_world_def quiet_world_def fresh_lister_def
      api_call_def logmsg_def Let_def)

subsection \<open>Scan of one cell, with retries\<close>

lemma range_max_retries: "[0..<max_retries] = [0, 1, 2]"
  by (simp add: max_retries_def upt_rec)

lemma sleeps_append [simp]: "sleeps (xs @ ys) = sleeps xs @ sleeps ys"
  by (induction xs rule: sleeps.induct) auto

lemmas cell_defs =
  attempt_outcome_def transient_failure_def tries_def cell_result_def max_retries_def
  api_call_def logmsg_def sleep_def events_since_def Let_def

lemma cell_returns: "fst (get_stopped_instances_in_region_compartment w s reg cid) = cell_result w reg cid"
  unfolding get_stopped_instances_in_region_compartment_def range_max_retries
  by (auto simp: cell_defs split: option.splits sum.splits)

lemma cell_sleeps:
  "sleeps (events_since s (snd (get_stopped_instances_in_region_compartment w s reg cid)))
     = take (tries w reg cid - 1) [5, 10]"
  unfolding get_stopped_instances_in_region_compartment_def range_max_retries
  by (auto simp: cell_defs split: option.splits sum.splits)

lemma cell_requests:
  "api_calls_made (snd (get_stopped_instances_in_region_compartment w s reg cid))
     = api_calls_made s + (if compute_client w reg = None then tries w reg cid else 0)"
  unfolding get_stopped_instances_in_region_compartment_def range_max_retries
  by (auto simp: cell_defs split: option.splits sum.splits)

lemma cell_trace_grows:
  "trace (snd (get_stopped_instances_in_region_compartment w s reg cid))
     = trace s @ events_since s (snd (get_stopped_instances_in_region_compartment w s reg cid))"
  unfolding get_stopped_instances_in_region_compartment_def range_max_retries
  by (auto simp: cell_defs split: option.splits sum.splits)

lemma cell_keeps:
  "compartment_cache (snd (get_stopped_instances_in_region_compartment w s reg cid)) = compartment_cache s"
  "region_cache (snd (get_stopped_instances_in_region_compartment w s reg cid)) = region_cache s"
  unfolding get_stopped_instances_in_region_compartment_def range_max_retries
  by (auto simp: cell_defs split: option.splits sum.splits)

lemma tries_bounds: "1 \<le> tries w reg cid" "tries w reg cid \<le> 3"
  by (simp_all add: tries_def)


lemma is_transient_keywords:
  "is_transient e \<longleftrightarrow>
     py_contains ''timeout'' (py_lower (error_text e))
     \<or> py_contains ''connection'' (py_lower (error_text e))
     \<or> py_contains ''max retries'' (py_lower (error_text e))"
  by (simp add: is_transient_def transient_keywords_def)

lemma lower_char_simps:
  "lower_char c = (if 65 \<le> (of_char c :: nat) \<and> (of_char c :: nat) \<le> 90
                   then char_of ((of_char c :: nat) + 32) else c)"
  by (simp add: lower_char_def Let_def)

lemma timeout_is_transient: "is_transient (ServiceError ''Read Timeout'')"
  by (simp add: is_transient_keywords py_lower_def lower_char_simps char_of_eq_iff)

lemma bad_key_not_transient: "\<not> is_transient (ServiceError ''Could not deserialize key data'')"
  by (simp add: is_transient_keywords py_lower_def lower_char_simps char_of_eq_iff)

lemma not_found_not_transient: "\<not> is_transient (ServiceError ''NotAuthorizedOrNotFound'')"
  by (simp add: is_transient_keywords py_lower_def lower_char_simps char_of_eq_iff)

text \<open>
  C2, as the code has it. A cell takes one to three attempts: an attempt is followed by
  another only when it fails with a transient error (its text, in lower case, contains
  timeout, connection or max retries) and is not the third. It sleeps 5 seconds after
  the first attempt and 10 after the second when it retries. It returns what its last
  attempt returned, or the empty list when that attempt failed; it raises nothing. The
  counter of API calls grows by one for every attempt that reaches the listing request,
  whether the request succeeds or fails, and not at all when the client constructor
  raises. So three transient failures give the empty list after sleeps of 5 and 10, a
  failure that is not transient gives the empty list at once, and two timeouts followed
  by one instance give that instance and three more API calls.
\<close>

theorem cell_retry_with_backoff:
  "fst (get_stopped_instances_in_region_compartment w s reg cid) = cell_result w reg cid
   \<and> 1 \<le> tries w reg cid \<and> tries w reg cid \<le> 3
   \<and> sleeps (events_since s (snd (get_stopped_instances_in_region_compartment w s reg cid)))
       = take (tries w reg cid - 1) [5, 10]
   \<and> api_calls_made (snd (get_stopped_instances_in_region_compartment w s reg cid))
       = api_calls_made s + (if compute_client w reg = None then tries w reg cid else 0)
   \<and> (\<forall>e0 e1 e2.
         attempt_outcome w reg cid 0 = Inl e0 \<and> is_transient e0
           \<and> attempt_outcome w reg cid 1 = Inl e1 \<and> is_transient e1
           \<and> attempt_outcome w reg cid 2 = Inl e2
         \<longrightarrow> tries w reg cid = 3
             \<and> fst (get_stopped_instances_in_region_compartment w s reg cid) = []
             \<and> sleeps (events_since s
                   (snd (get_stopped_instances_in_region_compartment w s reg cid))) = [5, 10])
   \<and> (\<forall>e. attempt_outcome w reg cid 0 = Inl e \<and> \<not> is_transient e
         \<longrightarrow> tries w reg cid = 1
             \<and> fst (get_stopped_instances_in_region_compartment w s reg cid) = []
             \<and> sleeps (events_since s
                   (snd (get_stopped_instances_in_region_compartment w s reg cid))) = [])
   \<and> (\<forall>e0 e1 i.
         compute_client w reg = None
           \<and> list_instances w reg cid 0 = Inl e0 \<and> is_transient e0
           \<and> list_instances w reg cid 1 = Inl e1 \<and> is_transient e1
           \<and> list_instances w reg cid 2 = Inr [i]
         \<longrightarrow> fst (get_stopped_instances_in_region_compartment w s reg cid) = [i]
             \<and> api_calls_made (snd (get_stopped_instances_in_region_compartment w s reg cid))
                 = api_calls_made s + 3
             \<and> sleeps (events_since s
                   (snd (get_stopped_instances_in_region_compartment w s reg cid))) = [5, 10])"
proof (intro conjI allI impI)
  show "fst (get_stopped_instances_in_region_compartment w s reg cid) = cell_result w reg cid"
    by (rule cell_returns)
  show "1 \<le> tries w reg cid" "tries w reg cid \<le> 3"
    by (rule tries_bounds)+
  show "sleeps (events_since s (snd (get_stopped_instances_in_region_compartment w s reg cid)))
       = take (tries w reg cid - 1) [5, 10]"
    by (rule cell_sleeps)
  show "api_calls_made (snd (get_stopped_instances_in_region_compartment w s reg cid))
       = api_calls_made s + (if compute_client w reg = None then tries w reg cid else 0)"
    by (rule cell_requests)
next
  fix e0 e1 e2
  assume a: "attempt_outcome w reg cid 0 = Inl e0 \<and> is_transient e0
           \<and> attempt_outcome w reg cid 1 = Inl e1 \<and> is_transient e1
           \<and> attempt_outcome w reg cid 2 = Inl e2"
  then show t: "tries w reg cid = 3"
    by (simp add: tries_def transient_failure_def)
  from a t show "fst (get_stopped_instances_in_region_compartment w s reg cid) = []"
    by (simp add: cell_returns cell_result_def)
  from t show "sleeps (events_since s
      (snd (get_stopped_instances_in_region_compartment w s reg cid))) = [5, 10]"
    by (simp add: cell_sleeps)
next
  fix e
  assume a: "attempt_outcome w reg cid 0 = Inl e \<and> \<not> is_transient e"
  then show t: "tries w reg cid = 1"
    by (simp add: tries_def transient_failure_def)
  from a t show "fst (get_stopped_instances_in_region_compartment w s reg cid) = []"
    by (simp add: cell_returns cell_result_def)
  from t show "sleeps (events_since s
      (snd (get_stopped_instances_in_region_compartment w s reg cid))) = []"
    by (simp add: cell_sleeps)
next
  fix e0 e1 i
  assume a: "compute_client w reg = None
           \<and> list_instances w reg cid 0 = Inl e0 \<and> is_transient e0
           \<and> list_instances w reg cid 1 = Inl e1 \<and> is_transient e1
           \<and> list_instances w reg cid 2 = Inr [i]"
  then have t: "tries w reg cid = 3"
    by (simp add: tries_def transient_failure_def attempt_outcome_def)
  from a t show "fst (get_stopped_instances_in_region_compartment w s reg cid) = [i]"
    by (simp add: cell_returns cell_result_def attempt_outcome_def)
  from a t show "api_calls_made (snd (get_stopped_instances_in_region_compartment w s reg cid))
                 = api_calls_made s + 3"
    by (simp add: cell_requests)
  from t show "sleeps (events_since s
      (snd (get_stopped_instances_in_region_compartment w s reg cid))) = [5, 10]"
    by (simp add: cell_sleeps)
qed

theorem cell_retry_with_backoff_witness:
  "fst (get_stopped_instances_in_region_compartment flaky_world fresh_lister
          ''us-phoenix-1'' ''ocid1.compartment.b'') = [instance_of_day ''x'' 1]
   \<and> api_calls_made (snd (get_stopped_instances_in_region_compartment flaky_world fresh_lister
          ''us-phoenix-1'' ''ocid1.compartment.b'')) = 3
   \<and> sleeps (events_since fresh_lister
        (snd (get_stopped_instances_in_region_compartment flaky_world fresh_lister
          ''us-phoenix-1'' ''ocid1.compartment.b''))) = [5, 10]
   \<and> fst (get_stopped_instances_in_region_compartment
          (quiet_world\<lparr>list_instances := (\<lambda>reg cid attempt. Inl (ServiceError ''Read Timeout''))\<rparr>)
          fresh_lister ''us-phoenix-1'' ''ocid1.compartment.b'') = []
   \<and> sleeps (events_since fresh_lister
        (snd (get_stopped_instances_in_region_compartment
          (quiet_world\<lparr>list_instances := (\<lambda>reg cid attempt. Inl (ServiceError ''Read Timeout''))\<rparr>)
          fresh_lister ''us-phoenix-1'' ''ocid1.compartment.b''))) = [5, 10]
   \<and> fst (get_stopped_instances_in_region_compartment
          (quiet_world\<lparr>list_instances :=
             (\<lambda>reg cid attempt. Inl (ServiceError ''NotAuthorizedOrNotFound''))\<rparr>)
          fresh_lister ''us-phoenix-1'' ''ocid1.compartment.b'') = []
   \<and> sleeps (events_since fresh_lister
        (snd (get_stopped_instances_in_region_compartment
          (quiet_world\<lparr>list_instances :=
             (\<lambda>reg cid attempt. Inl (ServiceError ''NotAuthorizedOrNotFound''))\<rparr>)
          fresh_lister ''us-phoenix-1'' ''ocid1.compartment.b''))) = []"
proof -
  let ?r = "''us-phoenix-1''" and ?c = "''ocid1.compartment.b''"
  let ?w1 = "quiet_world\<lparr>list_instances :=
      (\<lambda>reg cid attempt. Inl (ServiceError ''Read Timeout''))\<rparr>"
  let ?w2 = "quiet_world\<lparr>list_instances :=
      (\<lambda>reg cid attempt. Inl (ServiceError ''NotAuthorizedOrNotFound''))\<rparr>"
  have f: "compute_client flaky_world ?r = None
           \<and> list_instances flaky_world ?r ?c 0 = Inl (ServiceError ''Read Timeout'')
           \<and> is_transient (ServiceError ''Read Timeout'')
           \<and> list_instances flaky_world ?r ?c 1 = Inl (ServiceError ''Read Timeout'')
           \<and> is_transient (ServiceError ''Read Timeout'')
           \<and> list_instances flaky_world ?r ?c 2 = Inr [instance_of_day ''x'' 1]"
    by (simp add: flaky_world_def quiet_world_def timeout_is_transient)
  have a: "attempt_outcome ?w1 ?r ?c 0 = Inl (ServiceError ''Read Timeout'')
           \<and> is_transient (ServiceError ''Read Timeout'')
           \<and> attempt_outcome ?w1 ?r ?c 1 = Inl (ServiceError ''Read Timeout'')
           \<and> is_transient (ServiceError ''Read Timeout'')
           \<and> attempt_outcome ?w1 ?r ?c 2 = Inl (ServiceError ''Read Timeout'')"
    by (simp add: attempt_outcome_def quiet_world_def timeout_is_transient)
  have b: "attempt_outcome ?w2 ?r ?c 0 = Inl (ServiceError ''NotAuthorizedOrNotFound'')
           \<and> \<not> is_transient (ServiceError ''NotAuthorizedOrNotFound'')"
    by (simp add: attempt_outcome_def quiet_world_def not_found_not_transient)
  note scenario = cell_retry_with_backoff [of flaky_world fresh_lister ?r ?c,
      THEN conjunct2, THEN conjunct2, THEN conjunct2, THEN conjunct2, THEN conjunct2,
      THEN conjunct2, THEN conjunct2, rule_format, OF f]
  note exhausted = cell_retry_with_backoff [of ?w1 fresh_lister ?r ?c,
      THEN conjunct2, THEN conjunct2, THEN conjunct2, THEN conjunct2, THEN conjunct2,
      THEN conjunct1, rule_format, OF a]
  note permanent = cell_retry_with_backoff [of ?w2 fresh_lister ?r ?c,
      THEN conjunct2, THEN conjunct2, THEN conjunct2, THEN conjunct2, THEN conjunct2,
      THEN conjunct2, THEN conjunct1, rule_format, OF b]
  from scenario exhausted permanent show ?thesis
    by (simp add: fresh_lister_def)
qed

text \<open>
  Counterexample to C2 as stated, where the client constructor raises: the cell makes an attempt,
  the attempt fails, and no API call is counted.
\<close>

theorem constructor_failure_not_counted:
  "tries bad_key_world ''us-ashburn-1'' ''ocid1.compartment.a'' = 1
   \<and> attempt_outcome bad_key_world ''us-ashburn-1'' ''ocid1.compartment.a'' 0
       = Inl (ServiceError ''Could not deserialize key data'')
   \<and> get_stopped_instances_in_region_compartment bad_key_world fresh_lister
         ''us-ashburn-1'' ''ocid1.compartment.a''
       = ([], fresh_lister\<lparr>trace :=
            [Log ''warning'' ''Failed to get instances in {}/{}: {}''
               [S ''us-ashburn-1'', S ''Unknown'', S ''Could not deserialize key data'']]\<rparr>)
   \<and> api_calls_made (snd (get_stopped_instances_in_region_compartment bad_key_world fresh_lister
         ''us-ashburn-1'' ''ocid1.compartment.a'')) = 0"
proof -
  have o: "attempt_outcome bad_key_world ''us-ashburn-1'' ''ocid1.compartment.a'' 0
       = Inl (ServiceError ''Could not deserialize key data'')"
    by (simp add: attempt_outcome_def bad_key_world_def quiet_world_def)
  have t: "tries bad_key_world ''us-ashburn-1'' ''ocid1.compartment.a'' = 1"
    by (simp add: tries_def o transient_failure_def bad_key_not_transient)
  have c: "compute_client bad_key_world ''us-ashburn-1''
             = Some (ServiceError ''Could not deserialize key data'')"
    by (simp add: bad_key_world_def quiet_world_def)
  have r: "get_stopped_instances_in_region_compartment bad_key_world fresh_lister
         ''us-ashburn-1'' ''ocid1.compartment.a''
       = ([], fresh_lister\<lparr>trace :=
            [Log ''warning'' ''Failed to get instances in {}/{}: {}''
               [S ''us-ashburn-1'', S ''Unknown'', S ''Could not deserialize key data'']]\<rparr>)"
    unfolding get_stopped_instances_in_region_compartment_def range_max_retries
    by (simp add: c bad_key_not_transient logmsg_def dict_get_def fresh_lister_def)
  show ?thesis unfolding r using o t by (simp add: fresh_lister_def)
qed

subsection \<open>Scan of all cells\<close>




lemma collect_result:
  "fst (collect w n order acc k s)
     = acc @ concat (map (\<lambda>(r, c). map (tag_region r) (cell_result w r c)) order)"
proof (induction order arbitrary: acc k s)
  case Nil
  then show ?case by simp
next
  case (Cons t order)
  obtain reg cid where t: "t = (reg, cid)" by (cases t)
  obtain instances s1 where g: "get_stopped_instances_in_region_compartment w s reg cid = (instances, s1)"
    by (cases "get_stopped_instances_in_region_compartment w s reg cid")
  then have i: "instances = cell_result w reg cid"
    using cell_returns [of w s reg cid] by simp
  show ?case
    unfolding t
    by (simp add: g i Cons.IH Let_def split: prod.splits)
qed

lemma discover_result:
  "fst (discover_stopped_instances w s regions cids)
     = concat (map (\<lambda>(r, c). map (tag_region r) (cell_result w r c))
         (as_completed w (List.product regions cids)))"
proof -
  let ?tasks = "List.product regions cids"
  let ?s1 = "logmsg ''info''
      ''Scanning {} region/compartment combinations for STOPPED instances''
      [N (int (length ?tasks))] s"
  obtain out s2 where c: "collect w (length ?tasks) (as_completed w ?tasks) [] 0 ?s1 = (out, s2)"
    by (cases "collect w (length ?tasks) (as_completed w ?tasks) [] 0 ?s1")
  then have "out = concat (map (\<lambda>(r, c). map (tag_region r) (cell_result w r c))
         (as_completed w ?tasks))"
    using collect_result [of w "length ?tasks" "as_completed w ?tasks" "[]" 0 ?s1] by simp
  then show ?thesis
    unfolding discover_stopped_instances_def Let_def c by simp
qed







subsection \<open>Result processor\<close>





lemma process_depends_on_cache:
  "compartment_cache s = compartment_cache s'
     \<Longrightarrow> process_stopped_instance w s i reg = process_stopped_instance w s' i reg"
  unfolding process_stopped_instance_def by (simp only:)

lemma mapped_depends_on_cache:
  "compartment_cache s = compartment_cache s' \<Longrightarrow> mapped w s instances = mapped w s' instances"
  by (simp add: mapped_def process_depends_on_cache [of s s'])

lemma process_loop_all_ids:
  assumes "\<forall>i \<in> set instances. inst_id i \<noteq> None"
  shows "fst (process_loop w instances min_days acc s)
           = Inr (acc @ filter (\<lambda>r. min_days \<le> days_since_created r) (mapped w s instances))"
  using assms
proof (induction instances arbitrary: acc s)
  case Nil
  then show ?case by (simp add: mapped_def)
next
  case (Cons i instances)
  from Cons.prems obtain iid where iid: "inst_id i = Some iid" by auto
  from Cons.prems have rest: "\<forall>i \<in> set instances. inst_id i \<noteq> None" by simp
  show ?case
  proof (cases "process_stopped_instance w s i (getattr (inst_region i) ''unknown'')")
    case (Inr r)
    then show ?thesis
      using Cons.IH [OF rest] by (simp add: mapped_def)
  next
    case (Inl e)
    let ?s' = "logmsg ''warning'' ''Error processing instance {}: {}''
                 [S iid, S (error_text e)] s"
    have c: "compartment_cache ?s' = compartment_cache s" by (simp add: logmsg_def)
    have m: "mapped w ?s' instances = mapped w s instances"
      by (rule mapped_depends_on_cache [OF c])
    have "mapped w s (i # instances) = mapped w s instances"
      using Inl by (simp add: mapped_def)
    then show ?thesis
      using Inl iid Cons.IH [OF rest, of acc ?s'] by (simp add: attr_def m)
  qed
qed

lemma process_instances_all_ids:
  assumes "\<forall>i \<in> set instances. inst_id i \<noteq> None"
  shows "fst (process_instances w s instances min_days)
           = Inr (sort_reverse days_since_created
                    (filter (\<lambda>r. min_days \<le> days_since_created r) (mapped w s instances)))"
proof -
  let ?s1 = "logmsg ''info'' ''Processing {} stopped instances'' [N (int (length instances))] s"
  have c: "compartment_cache ?s1 = compartment_cache s" by (simp add: logmsg_def)
  obtain r s2 where p: "process_loop w instances min_days [] ?s1 = (r, s2)"
    by (cases "process_loop w instances min_days [] ?s1")
  then have "r = Inr (filter (\<lambda>r. min_days \<le> days_since_created r) (mapped w s instances))"
    using process_loop_all_ids [OF assms, of w min_days "[]" ?s1]
    by (simp add: mapped_depends_on_cache [OF c])
  then show ?thesis
    unfolding process_instances_def Let_def p by simp
qed



lemma process_instances_missing_id:
  assumes "\<exists>i \<in> set instances. inst_id i = None"
  shows "fst (process_instances w s instances min_days) = Inl (AttributeError ''id'')"
proof -
  have loop: "fst (process_loop w instances min_days acc s') = Inl (AttributeError ''id'')"
    if "\<exists>i \<in> set instances. inst_id i = None" for acc s'
    using that
  proof (induction instances arbitrary: acc s')
    case Nil
    then show ?case by simp
  next
    case (Cons i instances)
    show ?case
    proof (cases "inst_id i")
      case None
      then have "\<exists>e. process_stopped_instance w s' i (getattr (inst_region i) ''unknown'') = Inl e"
        by (auto simp: process_stopped_instance_def attr_def Let_def split: option.splits)
      with None show ?thesis by (auto simp: attr_def)
    next
      case (Some iid)
      with Cons.prems have "\<exists>i \<in> set instances. inst_id i = None" by auto
      note ih = Cons.IH [OF this]
      show ?thesis
        by (cases "process_stopped_instance w s' i (getattr (inst_region i) ''unknown'')")
          (simp_all add: Some attr_def ih)
    qed
  qed
  let ?s1 = "logmsg ''info'' ''Processing {} stopped instances'' [N (int (length instances))] s"
  obtain r s2 where p: "process_loop w instances min_days [] ?s1 = (r, s2)"
    by (cases "process_loop w instances min_days [] ?s1")
  then have "r = Inl (AttributeError ''id'')"
    using loop [OF assms, of "[]" ?s1] by simp
  then show ?thesis
    unfolding process_instances_def Let_def p by simp
qed












subsection \<open>The entry point\<close>

lemmas run_defs = main_def skip_regions_block_def read_local_def truthy_def dict_of_def
  new_lister_def list_stopped_instances_def get_subscribed_regions_def
  get_all_compartments_def compartments_found_def compartments_fallback_def
  discover_stopped_instances_def process_instances_def unpack4_def api_call_def logmsg_def
  Let_def














text \<open>
  C1. The run on an empty scan universe: the tenancy has no region in READY status, so
  there is no cell to scan. \<open>list_stopped_instances\<close> logs "No stopped instances found!"
  and returns three values; \<open>main\<close> unpacks four, the \<open>ValueError\<close> is caught by its
  handler, which prints "Scan failed" and exits with status 1.
\<close>

theorem empty_universe_run_exits_with_error:
  "main quiet_world default_args
     = (SystemExit 1,
        [Log ''info'' ''OCI config validated for profile: {}'' [S ''DEFAULT''],
         Log ''info'' ''Using tenancy: {}'' [S ''ocid1.tenancy.oc1..acme''],
         ApiCall ''list_region_subscriptions'' [''ocid1.tenancy.oc1..acme''],
         Log ''info'' ''Found {} subscribed regions'' [N 0],
         ApiCall ''list_compartments'' [''ocid1.tenancy.oc1..acme''],
         ApiCall ''get_tenancy'' [''ocid1.tenancy.oc1..acme''],
         Log ''info'' ''Found {} compartments'' [N 1],
         Log ''info'' ''Starting scan: {} regions, {} compartments'' [N 0, N 1],
         Log ''info'' ''Scanning {} region/compartment combinations for STOPPED instances''
           [N 0],
         Log ''info'' ''Discovery complete: {} stopped instances found'' [N 0],
         Log ''info'' ''No stopped instances found!'' [],
         Print ''Scan failed: {}'' [S ''not enough values to unpack'']])"
  by (simp add: run_defs quiet_world_def default_args_def)

subsection \<open>Further properties of the scan and the batch\<close>

lemma collect_calls:
  "api_calls_made (snd (collect w n order acc k s))
     = api_calls_made s
       + sum_list (map (\<lambda>(r, c). if compute_client w r = None then tries w r c else 0) order)"
proof (induction order arbitrary: acc k s)
  case Nil
  then show ?case by simp
next
  case (Cons t order)
  obtain reg cid where t: "t = (reg, cid)" by (cases t)
  obtain instances s1
    where g: "get_stopped_instances_in_region_compartment w s reg cid = (instances, s1)"
    by (cases "get_stopped_instances_in_region_compartment w s reg cid")
  then have c: "api_calls_made s1
      = api_calls_made s + (if compute_client w reg = None then tries w reg cid else 0)"
    using cell_requests [of w s reg cid] by simp
  show ?case
    unfolding t
    by (simp add: g Cons.IH Let_def c logmsg_def split: prod.splits)
qed

text \<open>
  The executor adds to the counter of API calls the requests of every cell it runs: as
  many as the cell makes attempts, none for a cell whose client constructor raises. In the
  scenario of two regions and three compartments in which one cell times out twice and
  then returns one instance, it returns that instance, tagged with its region, and counts
  eight calls: one for each of the five quiet cells and three for the flaky one.
\<close>

theorem discover_counts_requests:
  "api_calls_made (snd (discover_stopped_instances w s regions cids))
     = api_calls_made s
       + sum_list (map (\<lambda>(r, c). if compute_client w r = None then tries w r c else 0)
                    (as_completed w (List.product regions cids)))
   \<and> fst (discover_stopped_instances flaky_world fresh_lister
            [''us-ashburn-1'', ''us-phoenix-1'']
            [''ocid1.compartment.a'', ''ocid1.compartment.b'', ''ocid1.compartment.c''])
       = [tag_region ''us-phoenix-1'' (instance_of_day ''x'' 1)]
   \<and> api_calls_made (snd (discover_stopped_instances flaky_world fresh_lister
            [''us-ashburn-1'', ''us-phoenix-1'']
            [''ocid1.compartment.a'', ''ocid1.compartment.b'', ''ocid1.compartment.c''])) = 8"
proof (intro conjI)
  show gen: "api_calls_made (snd (discover_stopped_instances w s regions cids))
     = api_calls_made s
       + sum_list (map (\<lambda>(r, c). if compute_client w r = None then tries w r c else 0)
                    (as_completed w (List.product regions cids)))" for w s regions cids
  proof -
    let ?tasks = "List.product regions cids"
    let ?s1 = "logmsg ''info''
      ''Scanning {} region/compartment combinations for STOPPED instances''
      [N (int (length ?tasks))] s"
    obtain out s2 where c: "collect w (length ?tasks) (as_completed w ?tasks) [] 0 ?s1 = (out, s2)"
      by (cases "collect w (length ?tasks) (as_completed w ?tasks) [] 0 ?s1")
    then have "api_calls_made s2 = api_calls_made ?s1
       + sum_list (map (\<lambda>(r, c). if compute_client w r = None then tries w r c else 0)
                    (as_completed w ?tasks))"
      using collect_calls [of w "length ?tasks" "as_completed w ?tasks" "[]" 0 ?s1] by simp
    then show ?thesis
      unfolding discover_stopped_instances_def Let_def c by (simp add: logmsg_def)
  qed
  have cells: "cell_result flaky_world r c
     = (if r = ''us-phoenix-1'' \<and> c = ''ocid1.compartment.b''
        then [instance_of_day ''x'' 1] else [])" for r c
    by (simp add: cell_result_def tries_def attempt_outcome_def transient_failure_def
        flaky_world_def quiet_world_def timeout_is_transient)
  have tr: "tries flaky_world r c
     = (if r = ''us-phoenix-1'' \<and> c = ''ocid1.compartment.b'' then 3 else 1)" for r c
    by (simp add: tries_def attempt_outcome_def transient_failure_def
        flaky_world_def quiet_world_def timeout_is_transient)
  have w: "as_completed flaky_world = (\<lambda>tasks. tasks)" "compute_client flaky_world = (\<lambda>r. None)"
    by (simp_all add: flaky_world_def quiet_world_def)
  show "fst (discover_stopped_instances flaky_world fresh_lister
            [''us-ashburn-1'', ''us-phoenix-1'']
            [''ocid1.compartment.a'', ''ocid1.compartment.b'', ''ocid1.compartment.c''])
       = [tag_region ''us-phoenix-1'' (instance_of_day ''x'' 1)]"
    by (simp add: discover_result w cells)
  show "api_calls_made (snd (discover_stopped_instances flaky_world fresh_lister
            [''us-ashburn-1'', ''us-phoenix-1'']
            [''ocid1.compartment.a'', ''ocid1.compartment.b'', ''ocid1.compartment.c''])) = 8"
    by (simp add: gen w tr fresh_lister_def)
qed

text \<open>
  A batch fails, with the error of the handler, exactly when one of its records has no
  id; otherwise it yields a list of reports.
\<close>

theorem process_instances_fails_iff_missing_id:
  "fst (process_instances w s instances min_days) = Inl (AttributeError ''id'')
     \<longleftrightarrow> (\<exists>i \<in> set instances. inst_id i = None)"
proof
  assume f: "fst (process_instances w s instances min_days) = Inl (AttributeError ''id'')"
  show "\<exists>i \<in> set instances. inst_id i = None"
  proof (rule ccontr)
    assume "\<not> (\<exists>i \<in> set instances. inst_id i = None)"
    then have "\<forall>i \<in> set instances. inst_id i \<noteq> None" by simp
    from process_instances_all_ids [OF this, of w s min_days] f show False by simp
  qed
next
  assume "\<exists>i \<in> set instances. inst_id i = None"
  then show "fst (process_instances w s instances min_days) = Inl (AttributeError ''id'')"
    by (rule process_instances_missing_id)
qed

end
